theory Spec2Isabelle
  imports Main "HOL-Library.AList" "HOL-Library.Sublist" "HOL-Library.Char_ord"
    "HOL-Library.List_Lexorder"
begin

section \<open>Python values and exceptions\<close>

text \<open>
  A job configuration is a Python dictionary decoded from JSON and mutated in place by the
  job manager. A dictionary is an association list in insertion order: item assignment is
  \<open>AList.update\<close> (it overwrites in place or appends), \<open>pop\<close> is \<open>AList.delete\<close>.
  Python strings are byte lists.
\<close>

datatype pyval =
    PNone
  | PBool bool
  | PInt int
  | PStr string
  | PList "pyval list"
  | PDict "(string \<times> pyval) list"

text \<open>
  The source raises the generic \<open>Exception\<close> with a message wherever it signals a failure of
  its own; the other constructors are the built-in exceptions that its expressions can raise.
\<close>

datatype exn =
    Exception string
  | KeyError string
  | TypeError
  | AttributeError
  | IndexError
  | ValueError
  | UnboundLocalError string
  | NameError string
  | FileNotFoundError
  | UnicodeDecodeError
  | IOError string
  | SSHException string

text \<open>\<open>v[k]\<close> for a string key: only a dictionary can be subscripted by a string.\<close>

fun getitem :: "pyval \<Rightarrow> string \<Rightarrow> exn + pyval" where
  "getitem (PDict d) k = (case map_of d k of None \<Rightarrow> Inl (KeyError k) | Some v \<Rightarrow> Inr v)"
| "getitem _ k = Inl TypeError"

text \<open>\<open>v[k] = x\<close> for a string key.\<close>

fun setitem :: "pyval \<Rightarrow> string \<Rightarrow> pyval \<Rightarrow> exn + pyval" where
  "setitem (PDict d) k x = Inr (PDict (AList.update k x d))"
| "setitem _ k x = Inl TypeError"

text \<open>\<open>v[a][b]\<close> and \<open>v[a][b] = x\<close>; the inner dictionary is mutated in place.\<close>

definition getitem2 :: "pyval \<Rightarrow> string \<Rightarrow> string \<Rightarrow> exn + pyval" where
  "getitem2 v a b = (case getitem v a of Inl e \<Rightarrow> Inl e | Inr u \<Rightarrow> getitem u b)"

definition setitem2 :: "pyval \<Rightarrow> string \<Rightarrow> string \<Rightarrow> pyval \<Rightarrow> exn + pyval" where
  "setitem2 v a b x =
     (case getitem v a of
        Inl e \<Rightarrow> Inl e
      | Inr u \<Rightarrow> (case setitem u b x of Inl e \<Rightarrow> Inl e | Inr u' \<Rightarrow> setitem v a u'))"

text \<open>
  \<open>v.pop(k)\<close> and \<open>v.pop(k, None)\<close> for a string key: \<open>dflt\<close> says whether a default was
  given. A list has a \<open>pop\<close> that rejects a string index; the other values have no \<open>pop\<close>.
\<close>

fun pop :: "bool \<Rightarrow> pyval \<Rightarrow> string \<Rightarrow> exn + pyval" where
  "pop dflt (PDict d) k =
     (if k \<in> fst ` set d \<or> dflt then Inr (PDict (AList.delete k d)) else Inl (KeyError k))"
| "pop dflt (PList xs) k = Inl TypeError"
| "pop dflt _ k = Inl AttributeError"

definition pop2 :: "bool \<Rightarrow> pyval \<Rightarrow> string \<Rightarrow> string \<Rightarrow> exn + pyval" where
  "pop2 dflt v a b =
     (case getitem v a of
        Inl e \<Rightarrow> Inl e
      | Inr u \<Rightarrow> (case pop dflt u b of Inl e \<Rightarrow> Inl e | Inr u' \<Rightarrow> setitem v a u'))"

text \<open>\<open>x + y\<close> where one operand is a string literal: the other must be a string too.\<close>

fun str_add :: "pyval \<Rightarrow> pyval \<Rightarrow> exn + string" where
  "str_add (PStr a) (PStr b) = Inr (a @ b)"
| "str_add _ _ = Inl TypeError"

text \<open>\<open>s.split(c)\<close> for a one-character separator: one field more than there are separators.\<close>

fun split_on :: "char \<Rightarrow> string \<Rightarrow> string list" where
  "split_on c [] = [[]]"
| "split_on c (x # xs) =
     (if x = c then [] # split_on c xs
      else (case split_on c xs of [] \<Rightarrow> [[x]] | w # ws \<Rightarrow> (x # w) # ws))"

text \<open>\<open>xs[-2]\<close> raises on fewer than two elements; \<open>xs[-1]\<close> on none.\<close>

definition index_m2 :: "'a list \<Rightarrow> exn + 'a" where
  "index_m2 xs = (if length xs < 2 then Inl IndexError else Inr (xs ! (length xs - 2)))"

definition index_m1 :: "'a list \<Rightarrow> exn + 'a" where
  "index_m1 xs = (if xs = [] then Inl IndexError else Inr (last xs))"

text \<open>Decoding the bytes read from a channel: \<open>decode('ascii')\<close> and \<open>decode('utf-8')\<close>.\<close>

definition decode_ascii :: "string \<Rightarrow> exn + string" where
  "decode_ascii bs = (if list_all (\<lambda>c. (of_char c :: nat) < 128) bs then Inr bs
                      else Inl UnicodeDecodeError)"

definition cont :: "nat \<Rightarrow> bool" where
  "cont b = (128 \<le> b \<and> b \<le> 191)"

fun utf8_ok :: "nat list \<Rightarrow> bool" where
  "utf8_ok [] = True"
| "utf8_ok [a] = (a < 128)"
| "utf8_ok [a, b] = (if a < 128 then utf8_ok [b] else 194 \<le> a \<and> a \<le> 223 \<and> cont b)"
| "utf8_ok [a, b, c] =
     (if a < 128 then utf8_ok [b, c]
      else if 194 \<le> a \<and> a \<le> 223 then cont b \<and> utf8_ok [c]
      else (a = 224 \<and> 160 \<le> b \<and> b \<le> 191 \<or> 225 \<le> a \<and> a \<le> 236 \<and> cont b
            \<or> a = 237 \<and> 128 \<le> b \<and> b \<le> 159 \<or> 238 \<le> a \<and> a \<le> 239 \<and> cont b) \<and> cont c)"
| "utf8_ok (a # b # c # d # r) =
     (if a < 128 then utf8_ok (b # c # d # r)
      else if 194 \<le> a \<and> a \<le> 223 then cont b \<and> utf8_ok (c # d # r)
      else if 224 \<le> a \<and> a \<le> 239 then
        (a = 224 \<and> 160 \<le> b \<and> b \<le> 191 \<or> 225 \<le> a \<and> a \<le> 236 \<and> cont b
         \<or> a = 237 \<and> 128 \<le> b \<and> b \<le> 159 \<or> 238 \<le> a \<and> a \<le> 239 \<and> cont b)
        \<and> cont c \<and> utf8_ok (d # r)
      else (a = 240 \<and> 144 \<le> b \<and> b \<le> 191 \<or> 241 \<le> a \<and> a \<le> 243 \<and> cont b
            \<or> a = 244 \<and> 128 \<le> b \<and> b \<le> 143) \<and> cont c \<and> cont d \<and> utf8_ok r)"

definition decode_utf8 :: "string \<Rightarrow> exn + string" where
  "decode_utf8 bs = (if utf8_ok (map of_char bs) then Inr bs else Inl UnicodeDecodeError)"

section \<open>The outside world\<close>

text \<open>
  What a remote command answers: the bytes of its standard output and standard error, and
  its exit status. The exit status is on the channel; the job manager never reads it.
\<close>

record response =
  stdout_bytes :: string
  stderr_bytes :: string
  exit_status :: int

text \<open>A remote file holds either a JSON document (kept as the value it denotes) or text.\<close>

datatype content = Json pyval | Text string

text \<open>What the program did to the world, oldest first.\<close>

datatype event =
    Cmd string
  | SftpOpenW string
  | SftpWrite string content
  | Upload string string
  | Tar string string
  | Remove string

text \<open>
  The job manager object: its directories and its collaborators. The SSH client, the local
  clock, the keyboard and the local files are outside the repository; each is a function
  of an abstract world \<open>'w\<close>.
\<close>

record 'w manager =
  jobs_dir :: string
  apps_dir :: string
  exec_command :: "string \<Rightarrow> 'w \<Rightarrow> (exn + response) \<times> 'w"
  sftp_open_w :: "string \<Rightarrow> 'w \<Rightarrow> (exn + unit) \<times> 'w"
  sftp_write :: "string \<Rightarrow> content \<Rightarrow> 'w \<Rightarrow> (exn + unit) \<times> 'w"
  sftp_read :: "string \<Rightarrow> 'w \<Rightarrow> exn + content"
  sftp_put :: "string \<Rightarrow> string \<Rightarrow> 'w \<Rightarrow> (exn + unit) \<times> 'w"
  isdir :: "string \<Rightarrow> 'w \<Rightarrow> bool"
  abspath :: "string \<Rightarrow> 'w \<Rightarrow> string"
  tar_add :: "string \<Rightarrow> string \<Rightarrow> string \<Rightarrow> bool \<Rightarrow> 'w \<Rightarrow> (exn + unit) \<times> 'w"
  os_remove :: "string \<Rightarrow> 'w \<Rightarrow> (exn + unit) \<times> 'w"
  strftime_now :: "'w \<Rightarrow> string \<times> 'w"
  input :: "string \<Rightarrow> 'w \<Rightarrow> string \<times> 'w"
  py_str :: "pyval \<Rightarrow> string"
  load_project_config :: "string \<Rightarrow> 'w \<Rightarrow> exn + pyval"
  load_templated_json_file :: "string \<Rightarrow> pyval \<Rightarrow> 'w \<Rightarrow> exn + pyval"

text \<open>
  The state a method runs in: the \<open>job_config\<close> object it was passed (mutated in place, so
  the caller sees every change made before an exception), the world, and the trace.
\<close>

record 'w state =
  job_config :: pyval
  world :: 'w
  trace :: "event list"

type_synonym ('w, 'a) prog = "'w state \<Rightarrow> (exn + 'a) \<times> 'w state"

definition yield :: "'a \<Rightarrow> ('w, 'a) prog" where
  "yield x s = (Inr x, s)"

definition raise :: "exn \<Rightarrow> ('w, 'a) prog" where
  "raise e s = (Inl e, s)"

definition lift :: "exn + 'a \<Rightarrow> ('w, 'a) prog" where
  "lift r s = (r, s)"

definition seq :: "('w, 'a) prog \<Rightarrow> ('a \<Rightarrow> ('w, 'b) prog) \<Rightarrow> ('w, 'b) prog" where
  "seq m k s = (case m s of (Inl e, s') \<Rightarrow> (Inl e, s') | (Inr x, s') \<Rightarrow> k x s')"

definition try_except :: "('w, 'a) prog \<Rightarrow> (exn \<Rightarrow> ('w, 'a) prog) \<Rightarrow> ('w, 'a) prog" where
  "try_except m h s = (case m s of (Inl e, s') \<Rightarrow> h e s' | (Inr x, s') \<Rightarrow> (Inr x, s'))"

definition get_job :: "('w, pyval) prog" where
  "get_job s = (Inr (job_config s), s)"

definition update_job :: "(pyval \<Rightarrow> exn + pyval) \<Rightarrow> ('w, unit) prog" where
  "update_job f s =
     (case f (job_config s) of Inl e \<Rightarrow> (Inl e, s) | Inr j \<Rightarrow> (Inr (), s\<lparr>job_config := j\<rparr>))"

definition read_job :: "(pyval \<Rightarrow> exn + 'a) \<Rightarrow> ('w, 'a) prog" where
  "read_job f s = (f (job_config s), s)"

definition act :: "event \<Rightarrow> ('w \<Rightarrow> (exn + 'a) \<times> 'w) \<Rightarrow> ('w, 'a) prog" where
  "act ev f s = (case f (world s) of (r, w) \<Rightarrow> (r, s\<lparr>world := w, trace := trace s @ [ev]\<rparr>))"

definition ask :: "('w \<Rightarrow> 'a \<times> 'w) \<Rightarrow> ('w, 'a) prog" where
  "ask f s = (case f (world s) of (x, w) \<Rightarrow> (Inr x, s\<lparr>world := w\<rparr>))"

definition peek :: "('w \<Rightarrow> exn + 'a) \<Rightarrow> ('w, 'a) prog" where
  "peek f s = (f (world s), s)"

section \<open>Running a command\<close>

text \<open>
  \<open>_execute_command\<close>: run the command, read both streams to their end, raise with the
  text of standard error when there is any, return standard output otherwise. The \<open>prnt\<close>
  flag only prints and is left out.
\<close>

definition execute_command :: "'w manager \<Rightarrow> string \<Rightarrow> ('w, string) prog" where
  "execute_command self cmnd =
     seq (act (Cmd cmnd) (exec_command self cmnd)) (\<lambda>r.
     seq (lift (decode_ascii (stdout_bytes r))) (\<lambda>out.
     seq (lift (decode_utf8 (stderr_bytes r))) (\<lambda>err.
       if length err > 0 then raise (Exception err) else yield out)))"

text \<open>
  A value placed in a format string or an f-string: a string stands for itself; for any
  other value Python's own \<open>str\<close> decides (the field \<open>py_str\<close>).
\<close>

definition fmt :: "'w manager \<Rightarrow> pyval \<Rightarrow> string" where
  "fmt self v = (case v of PStr s \<Rightarrow> s | _ \<Rightarrow> py_str self v)"

text \<open>\<open>sep.join(xs)\<close> on strings.\<close>

fun join :: "string \<Rightarrow> string list \<Rightarrow> string" where
  "join sep [] = []"
| "join sep [x] = x"
| "join sep (x # y # ys) = x @ sep @ join sep (y # ys)"

section \<open>Listing remote files\<close>

text \<open>
  \<open>re.split("\\s+", x)[-1]\<close> is what follows the last whitespace character of \<open>x\<close>
  (all of \<open>x\<close> when it has none). The output of a command is ASCII.
\<close>

definition is_space :: "char \<Rightarrow> bool" where
  "is_space c = (let n = (of_char c :: nat) in 9 \<le> n \<and> n \<le> 13 \<or> 28 \<le> n \<and> n \<le> 32)"

definition last_field :: "string \<Rightarrow> string" where
  "last_field x = rev (takeWhile (\<lambda>c. \<not> is_space c) (rev x))"

definition list_files :: "'w manager \<Rightarrow> string \<Rightarrow> ('w, string list) prog" where
  "list_files self path =
     seq (try_except (execute_command self (''ls -lat '' @ path))
            (\<lambda>e. raise FileNotFoundError)) (\<lambda>ret.
       yield (sort (remove1 ''..'' (remove1 ''.'' (remove1 []
                (map last_field (tl (split_on CHR 0x0A ret))))))))"

definition get_jobs :: "'w manager \<Rightarrow> ('w, string list) prog" where
  "get_jobs self = list_files self (jobs_dir self)"

definition get_apps :: "'w manager \<Rightarrow> ('w, string list) prog" where
  "get_apps self = list_files self (apps_dir self)"

section \<open>Sending a file\<close>

text \<open>\<open>os.path.join\<close> of two components and \<open>os.path.basename\<close>, on POSIX paths.\<close>

definition os_path_join :: "string \<Rightarrow> string \<Rightarrow> string" where
  "os_path_join a b =
     (if b \<noteq> [] \<and> hd b = CHR ''/'' then b
      else if a = [] \<or> last a = CHR ''/'' then a @ b
      else a @ ''/'' @ b)"

definition basename :: "string \<Rightarrow> string" where
  "basename p = rev (takeWhile (\<lambda>c. c \<noteq> CHR ''/'') (rev p))"

text \<open>
  \<open>send_file\<close>: a local directory is packed into a tar file, which is uploaded, removed
  locally and unpacked on the remote side by a command; a plain file is uploaded as it is.
  Either way the method ends by listing the remote directory the item was sent to, which is
  \<open>os.path.abspath(os.path.join(remote, os.pardir))\<close>. The fields \<open>isdir\<close>, \<open>abspath\<close>,
  \<open>tar_add\<close>, \<open>os_remove\<close> and \<open>sftp_put\<close> stand for \<open>os.path.isdir\<close>, \<open>os.path.abspath\<close>,
  \<open>tarfile.open\<close> with \<open>tar.add\<close>, \<open>os.remove\<close> and \<open>sftp.put\<close>.
\<close>

definition send_file :: "'w manager \<Rightarrow> string \<Rightarrow> string \<Rightarrow> bool \<Rightarrow> ('w, string list) prog" where
  "send_file self local remote exclude_hidden =
     seq (peek (\<lambda>w. Inr (abspath self (os_path_join remote ''..'') w))) (\<lambda>remote_dir.
     seq (peek (\<lambda>w. Inr (isdir self local w))) (\<lambda>is_dir.
     seq (if is_dir then
            seq (yield (''.'' @ basename local @ ''.taccjm.tar'')) (\<lambda>local_tar_file.
            seq (yield (remote_dir @ ''/.taccjm_temp_'' @ basename local @ ''.tar''))
              (\<lambda>remote_tar_file.
            seq (act (Tar local_tar_file local)
                   (tar_add self local_tar_file local (basename remote) exclude_hidden)) (\<lambda>_.
            seq (act (Upload local_tar_file remote_tar_file)
                   (sftp_put self local_tar_file remote_tar_file)) (\<lambda>_.
            seq (act (Remove local_tar_file) (os_remove self local_tar_file)) (\<lambda>_.
            seq (execute_command self
                   (''tar -xzvf '' @ remote_tar_file @ '' -C '' @ remote_dir @ ''; rm ''
                    @ remote_tar_file)) (\<lambda>_.
              yield ()))))))
          else act (Upload local remote) (sftp_put self local remote)) (\<lambda>_.
       list_files self remote_dir)))"

section \<open>The job record store\<close>

text \<open>
  \<open>save_job\<close>: stamp \<open>dump_ts\<close>, open \<open>job_config.json\<close> in the job directory for writing
  and dump the record into it. Every exception is logged and raised again.
\<close>

definition save_job :: "'w manager \<Rightarrow> ('w, unit) prog" where
  "save_job self =
     try_except
       (seq (ask (strftime_now self)) (\<lambda>ts.
        seq (update_job (\<lambda>jc. setitem2 jc ''ts'' ''dump_ts'' (PStr ts))) (\<lambda>_.
        seq (read_job (\<lambda>jc. case getitem jc ''job_dir'' of Inl e \<Rightarrow> Inl e
                             | Inr d \<Rightarrow> str_add d (PStr ''/job_config.json''))) (\<lambda>dest.
        seq (act (SftpOpenW dest) (sftp_open_w self dest)) (\<lambda>_.
        seq get_job (\<lambda>jc.
          act (SftpWrite dest (Json jc)) (sftp_write self dest (Json jc))))))))
       (\<lambda>e. raise e)"

definition json_load :: "content \<Rightarrow> exn + pyval" where
  "json_load c = (case c of Json v \<Rightarrow> Inr v | Text t \<Rightarrow> Inl ValueError)"

text \<open>
  \<open>load_job_config\<close>: the job must be listed under the jobs directory; the source misspells
  the exception it raises otherwise, which is a \<open>NameError\<close>.
\<close>

definition load_job_config :: "'w manager \<Rightarrow> string \<Rightarrow> ('w, pyval) prog" where
  "load_job_config self job_name =
     seq (get_jobs self) (\<lambda>jobs.
       if job_name \<notin> set jobs then raise (NameError ''Exeception'')
       else
         try_except
           (seq (peek (sftp_read self (join ''/'' [jobs_dir self, job_name, ''job_config.json''])))
              (\<lambda>c. lift (json_load c)))
           (\<lambda>e. if e = FileNotFoundError then raise FileNotFoundError else raise e))"

section \<open>Submit, cancel, cleanup\<close>

definition fresh_ts :: pyval where
  "fresh_ts = PDict [(''setup_ts'', PNone), (''submit_ts'', PNone),
                     (''start_ts'', PNone), (''end_ts'', PNone)]"

text \<open>\<open>ret.split('\n')[-2].split(' ')[-1]\<close>\<close>

definition parse_slurm_id :: "string \<Rightarrow> exn + string" where
  "parse_slurm_id ret =
     (case index_m2 (split_on CHR 0x0A ret) of
        Inl e \<Rightarrow> Inl e
      | Inr line \<Rightarrow> index_m1 (split_on CHR '' '' line))"

text \<open>
  \<open>submit_job\<close>. The handler around the \<open>sbatch\<close> command builds an exception and does not
  raise it, so \<open>ret\<close> stays unbound (\<open>None\<close> here) and the next statement raises.
\<close>

definition submit_job :: "'w manager \<Rightarrow> ('w, pyval) prog" where
  "submit_job self =
     seq (read_job (\<lambda>jc. getitem2 jc ''ts'' ''setup_ts'')) (\<lambda>setup_ts.
     seq (read_job (\<lambda>jc. getitem2 jc ''ts'' ''submit_ts'')) (\<lambda>submit_ts.
       if setup_ts \<noteq> PNone \<and> submit_ts = PNone then
         seq (read_job (\<lambda>jc. getitem jc ''job_dir'')) (\<lambda>job_dir.
         seq (try_except
                (seq (execute_command self
                        (''cd '' @ fmt self job_dir @ '';sbatch submit_script.sh''))
                   (\<lambda>out. yield (Some out)))
                (\<lambda>e. seq (read_job (\<lambda>jc. case getitem jc ''job_id'' of Inl e \<Rightarrow> Inl e
                            | Inr i \<Rightarrow> str_add (PStr ''Failed to run submit job - '') i))
                       (\<lambda>msg. yield None))) (\<lambda>bound.
           case bound of
             None \<Rightarrow> raise (UnboundLocalError ''ret'')
           | Some ret \<Rightarrow>
               seq (lift (parse_slurm_id ret)) (\<lambda>slurm_id.
               seq (update_job (\<lambda>jc. setitem2 jc ''slurm'' ''slurm_id'' (PStr slurm_id))) (\<lambda>_.
               seq (read_job (\<lambda>jc. getitem2 jc ''slurm'' ''slurm_id'')) (\<lambda>sid.
                 if sid = PStr ''FAILED'' \<or> sid = PStr [] then
                   seq (update_job (\<lambda>jc. setitem2 jc ''slurm'' ''sbatch_ret'' (PStr ret))) (\<lambda>_.
                     raise (Exception ''Failed to submit SLURM Job!''))
                 else
                   seq (update_job (\<lambda>jc. pop2 True jc ''slurm'' ''sbatch_ret'')) (\<lambda>_.
                   seq (ask (strftime_now self)) (\<lambda>ts.
                   seq (update_job (\<lambda>jc. setitem2 jc ''ts'' ''submit_ts'' (PStr ts))) (\<lambda>_.
                   seq (save_job self) (\<lambda>_. get_job)))))))))
       else raise (Exception ''Job has not been initialized or has already been submitted.'')))"

text \<open>\<open>cancel_job\<close>\<close>

definition cancel_job :: "'w manager \<Rightarrow> ('w, pyval) prog" where
  "cancel_job self =
     seq (read_job (\<lambda>jc. getitem2 jc ''ts'' ''submit_ts'')) (\<lambda>submit_ts.
       if submit_ts \<noteq> PNone then
         seq (read_job (\<lambda>jc. case getitem2 jc ''slurm'' ''slurm_id'' of Inl e \<Rightarrow> Inl e
                              | Inr i \<Rightarrow> str_add (PStr ''scancel '') i)) (\<lambda>cmnd.
         seq (execute_command self cmnd) (\<lambda>_.
         seq (update_job (\<lambda>jc. pop2 False jc ''slurm'' ''slurm_id'')) (\<lambda>_.
         seq (update_job (\<lambda>jc. setitem jc ''ts'' fresh_ts)) (\<lambda>_.
         seq (save_job self) (\<lambda>_. get_job)))))
       else raise (Exception ''Job has not been submitted yet.''))"

text \<open>
  \<open>cleanup_job\<close>. With \<open>check\<close> set the user is asked before the cancel and before the
  removal; a bare \<open>return\<close> gives \<open>None\<close>. The call of \<open>cancel_job\<close> is not guarded.
\<close>

definition lower :: "string \<Rightarrow> string" where
  "lower s = map (\<lambda>c. let n = (of_char c :: nat) in
                        if 65 \<le> n \<and> n \<le> 90 then char_of (n + 32) else c) s"

definition cleanup_job :: "'w manager \<Rightarrow> bool \<Rightarrow> ('w, pyval) prog" where
  "cleanup_job self check =
     seq (read_job (\<lambda>jc. getitem2 jc ''ts'' ''setup_ts'')) (\<lambda>setup_ts.
       if setup_ts \<noteq> PNone then
         seq (if check then
                seq (read_job (\<lambda>jc. getitem2 jc ''ts'' ''submit_ts'')) (\<lambda>submit_ts.
                  if submit_ts \<noteq> PNone then
                    seq (ask (input self ''Are you sure yo want to cancel the job? [yes/no]''))
                      (\<lambda>choice.
                        if lower choice \<noteq> ''yes'' then yield False
                        else seq (cancel_job self) (\<lambda>_. yield True))
                  else yield True)
              else yield True) (\<lambda>go_on.
           if \<not> go_on then yield PNone
           else
             seq (if check then
                    seq (ask (input self
                           ''Are you sure yo want to delete job directory? [yes/no]''))
                      (\<lambda>choice. yield (lower choice = ''yes''))
                  else yield True) (\<lambda>go_on.
               if \<not> go_on then yield PNone
               else
                 seq (read_job (\<lambda>jc. case getitem jc ''job_dir'' of Inl e \<Rightarrow> Inl e
                                      | Inr d \<Rightarrow> str_add (PStr ''rm -r '') d)) (\<lambda>cmnd.
                 seq (execute_command self cmnd) (\<lambda>_.
                 seq (update_job (\<lambda>jc. setitem jc ''job_dir'' PNone)) (\<lambda>_. get_job)))))
       else raise (Exception ''No job to cleanup. Job has not been initialized.''))"

section \<open>Applications\<close>

text \<open>\<open>load_app_config\<close>: the application must be listed; then its \<open>app.json\<close> is read.\<close>

definition load_app_config :: "'w manager \<Rightarrow> pyval \<Rightarrow> ('w, pyval) prog" where
  "load_app_config self appId =
     seq (get_apps self) (\<lambda>cur_apps.
       if appId \<notin> PStr ` set cur_apps then
         raise (Exception (''Application '' @ fmt self appId @ '' does not exist.''))
       else
         seq (lift (case appId of PStr a \<Rightarrow> Inr (join ''/'' [apps_dir self, a, ''app.json''])
                    | _ \<Rightarrow> Inl TypeError)) (\<lambda>app_config_path.
         seq (peek (sftp_read self app_config_path)) (\<lambda>c. lift (json_load c))))"

text \<open>\<open>get_app_wrapper_script\<close>: any failure of the \<open>cat\<close> becomes \<open>FileNotFoundError\<close>.\<close>

definition get_app_wrapper_script :: "'w manager \<Rightarrow> pyval \<Rightarrow> ('w, string) prog" where
  "get_app_wrapper_script self appId =
     seq (load_app_config self appId) (\<lambda>app_config.
     seq (lift (case getitem app_config ''templatePath'' of
                  Inl e \<Rightarrow> Inl e
                | Inr (PStr t) \<Rightarrow>
                    (case appId of PStr a \<Rightarrow> Inr (join ''/'' [apps_dir self, a, t])
                     | _ \<Rightarrow> Inl TypeError)
                | Inr _ \<Rightarrow> Inl TypeError)) (\<lambda>wrapper_script.
       try_except (execute_command self (''cat '' @ wrapper_script))
         (\<lambda>e. raise FileNotFoundError)))"

section \<open>Setting up a job\<close>

definition field :: "string \<Rightarrow> ('w, pyval) prog" where
  "field k = read_job (\<lambda>jc. getitem jc k)"

definition put_job :: "pyval \<Rightarrow> ('w, unit) prog" where
  "put_job j s = (Inr (), s\<lparr>job_config := j\<rparr>)"

text \<open>The inner function \<open>_cleanup\<close>: remove the job directory.\<close>

definition cleanup :: "'w manager \<Rightarrow> ('w, string) prog" where
  "cleanup self =
     seq (read_job (\<lambda>jc. case getitem jc ''job_dir'' of Inl e \<Rightarrow> Inl e
                          | Inr d \<Rightarrow> str_add (PStr ''rm -rf '') d))
       (execute_command self)"

text \<open>The inner function \<open>_get_attr\<close>: the job's own value, else the application's default.\<close>

definition get_attr :: "pyval \<Rightarrow> string \<Rightarrow> string \<Rightarrow> ('w, pyval) prog" where
  "get_attr app_config j a =
     read_job (\<lambda>jc. case jc of
                      PDict d \<Rightarrow> if j \<in> fst ` set d then getitem jc j else getitem app_config a
                    | _ \<Rightarrow> Inl AttributeError)"

definition set_attr :: "pyval \<Rightarrow> string \<Rightarrow> string \<Rightarrow> ('w, unit) prog" where
  "set_attr app_config j a =
     seq (get_attr app_config j a) (\<lambda>v. update_job (\<lambda>jc. setitem jc j v))"

text \<open>The keys of a dictionary, for \<open>d.keys()\<close> and \<open>k in d.keys()\<close>.\<close>

definition keys :: "pyval \<Rightarrow> exn + string list" where
  "keys v = (case v of PDict d \<Rightarrow> Inr (map fst d) | _ \<Rightarrow> Inl AttributeError)"

text \<open>The submit script: the formatted header, then the optional directives.\<close>

definition submit_header ::
  "'w manager \<Rightarrow> pyval \<Rightarrow> pyval \<Rightarrow> pyval \<Rightarrow> pyval \<Rightarrow> pyval \<Rightarrow> pyval \<Rightarrow> pyval \<Rightarrow> pyval \<Rightarrow> string"
where
  "submit_header self job_name job_desc ts job_id queue N n rt =
     ''#!/bin/bash\<newline>#----------------------------------------------------\<newline># ''
       @ fmt self job_name
       @ ''\<newline># ''
       @ fmt self job_desc
       @ ''\<newline># Created: ''
       @ fmt self ts
       @ ''\<newline>#----------------------------------------------------\<newline>\<newline>#SBATCH -J ''
       @ fmt self job_id
       @ ''                               # Job name\<newline>#SBATCH -o ''
       @ fmt self job_id
       @ ''.o%j                           # Name of stdout output file\<newline>#SBATCH -e ''
       @ fmt self job_id
       @ ''.e%j                           # Name of stderr error file\<newline>#SBATCH -p ''
       @ fmt self queue
       @ ''                                # Queue (partition) name\<newline>#SBATCH -N ''
       @ fmt self N
       @ ''                                    # Total # of nodes\<newline>#SBATCH -n ''
       @ fmt self n
       @ ''                                    # Total # of mpi tasks\<newline>#SBATCH -t ''
       @ fmt self rt
       @ ''                                   # Run time (hh:mm:ss)''"

definition render_submit_script :: "'w manager \<Rightarrow> ('w, string) prog" where
  "render_submit_script self =
     seq (field ''name'') (\<lambda>job_name.
     seq (field ''desc'') (\<lambda>job_desc.
     seq (read_job (\<lambda>jc. getitem2 jc ''ts'' ''setup_ts'')) (\<lambda>ts.
     seq (field ''job_id'') (\<lambda>job_id.
     seq (field ''queue'') (\<lambda>queue.
     seq (field ''nodeCount'') (\<lambda>N.
     seq (field ''processorsPerNode'') (\<lambda>n.
     seq (field ''maxRunTime'') (\<lambda>rt.
     seq (read_job keys) (\<lambda>ks.
     seq (if ''email'' \<in> set ks then
            seq (field ''email'') (\<lambda>email.
              yield (''\<newline>#SBATCH --mail-user='' @ fmt self email @ '' # Email to send to''
                     @ ''\<newline>#SBATCH --mail-type=all     # Email to send to''))
          else yield []) (\<lambda>mail.
     seq (if ''allocation'' \<in> set ks then
            seq (field ''allocation'') (\<lambda>allocation.
              yield (''\<newline>#SBATCH -A '' @ fmt self allocation @ '' # Allocation name ''))
          else yield []) (\<lambda>alloc.
     seq (field ''job_dir'') (\<lambda>job_dir.
       yield (submit_header self job_name job_desc ts job_id queue N n rt @ mail @ alloc
              @ ''\<newline>#----------------------------------------------------\<newline>''
              @ ''\<newline>cd '' @ fmt self job_dir @ ''\<newline>'')))))))))))))"

definition wrapper_preamble0 :: string where
  "wrapper_preamble0 =
     ''# Create start ts file\<newline>touch start_$(date +\"%FT%H%M%S\")\<newline>\<newline># Parse arguments passed\<newline>for ARGUMENT in \"$@\"\<newline>do\<newline>\<newline>    KEY=$(echo $ARGUMENT | cut -f1 -d=)\<newline>    VALUE=$(echo $ARGUMENT | cut -f2 -d=)\<newline>\<newline>    case \"$KEY\" in\<newline>        NP)           NP=${VALUE} ;;''"

definition case_line :: "string \<Rightarrow> string" where
  "case_line arg = ''\<newline>        '' @ arg @ '')           '' @ arg @ ''=${VALUE} ;;''"

definition wrapper_post :: string where
  "wrapper_post = ''\<newline># Create end ts file\<newline>touch end_$(date +\"%FT%H%M%S\")\<newline>''"

text \<open>
  The loop over the declared inputs; the accumulator is \<open>(execute_line, wrapper_preamble)\<close>.
  The handler removes the job directory and then fails while it formats its message:
  \<open>arg\<close> is a key, a string, and \<open>arg['name']\<close> is a \<open>TypeError\<close>.
\<close>

fun stage_inputs ::
  "'w manager \<Rightarrow> string list \<Rightarrow> string \<times> string \<Rightarrow> ('w, string \<times> string) prog"
where
  "stage_inputs self [] acc = yield acc"
| "stage_inputs self (arg # args) acc =
     seq (read_job (\<lambda>jc. getitem2 jc ''inputs'' arg)) (\<lambda>path.
     seq (field ''job_dir'') (\<lambda>job_dir.
     seq (lift (case path of PStr p \<Rightarrow> Inr p | _ \<Rightarrow> Inl TypeError)) (\<lambda>p.
     seq (lift (case job_dir of PStr d \<Rightarrow> Inr (join ''/'' [d, basename p])
                | _ \<Rightarrow> Inl TypeError)) (\<lambda>dest_path.
     seq (try_except (send_file self p dest_path True)
            (\<lambda>e. seq (cleanup self) (\<lambda>_. raise TypeError))) (\<lambda>_.
       stage_inputs self args
         (fst acc @ '' '' @ arg @ ''='' @ dest_path, snd acc @ case_line arg))))))"

text \<open>The loop over the parameters.\<close>

fun add_parameters ::
  "'w manager \<Rightarrow> (string \<times> pyval) list \<Rightarrow> string \<times> string \<Rightarrow> string \<times> string"
where
  "add_parameters self [] acc = acc"
| "add_parameters self ((arg, v) # rest) acc =
     add_parameters self rest
       (fst acc @ '' '' @ arg @ ''='' @ fmt self v, snd acc @ case_line arg)"

text \<open>
  \<open>setup_job\<close>, in the order of the source. It builds \<open>job_config\<close> as a local object, so
  the record in the starting state is overwritten by the rendered job description, and a
  caller receives a record only when the call returns. Three handlers call \<open>_cleanup\<close>;
  those around the wrapper script and around \<open>chmod\<close> build an exception without raising
  it, so the method goes on: \<open>wrapper_script\<close> may be unbound (\<open>None\<close> here) when it is read.
\<close>

definition setup_job :: "'w manager \<Rightarrow> string \<Rightarrow> string \<Rightarrow> string \<Rightarrow> ('w, pyval) prog" where
  "setup_job self local_job_dir job_config_file proj_config_file =
     seq (peek (load_project_config self (os_path_join local_job_dir proj_config_file)))
       (\<lambda>proj_config.
     seq (peek (load_templated_json_file self (os_path_join local_job_dir job_config_file)
                  proj_config)) (\<lambda>loaded.
     seq (put_job loaded) (\<lambda>_.
     seq (field ''appId'') (\<lambda>appId.
     seq (load_app_config self appId) (\<lambda>app_config.
     seq (update_job (\<lambda>jc. setitem jc ''ts'' fresh_ts)) (\<lambda>_.
     seq (ask (strftime_now self)) (\<lambda>now.
     seq (update_job (\<lambda>jc. setitem2 jc ''ts'' ''setup_ts'' (PStr now))) (\<lambda>_.
     seq (field ''name'') (\<lambda>name.
     seq (read_job (\<lambda>jc. getitem2 jc ''ts'' ''setup_ts'')) (\<lambda>ts.
     seq (update_job (\<lambda>jc. setitem jc ''job_id''
                               (PStr (fmt self name @ ''_'' @ fmt self ts)))) (\<lambda>_.
     seq (field ''job_id'') (\<lambda>job_id.
     seq (update_job (\<lambda>jc. setitem jc ''job_dir''
                               (PStr (jobs_dir self @ ''/'' @ fmt self job_id)))) (\<lambda>_.
     seq (try_except
            (seq (read_job (\<lambda>jc. case getitem jc ''job_dir'' of Inl e \<Rightarrow> Inl e
                                 | Inr d \<Rightarrow> str_add (PStr ''mkdir '') d))
               (execute_command self))
            (\<lambda>e. raise e)) (\<lambda>_.
     seq (field ''job_dir'') (\<lambda>job_dir.
     seq (execute_command self
            (''cp -r '' @ apps_dir self @ ''/'' @ fmt self appId @ ''/* ''
             @ fmt self job_dir @ ''/'')) (\<lambda>_.
     seq (list_files self (fmt self job_dir)) (\<lambda>files.
     seq (if ''setup.sh'' \<in> set files then
            seq (execute_command self (''chmod +x '' @ fmt self job_dir @ ''/setup.sh''))
              (\<lambda>_. execute_command self
                      (fmt self job_dir @ ''/setup.sh '' @ fmt self job_dir))
          else yield []) (\<lambda>_.
     seq (try_except
            (seq (get_app_wrapper_script self appId) (\<lambda>w. yield (Some w)))
            (\<lambda>e. seq (cleanup self) (\<lambda>_. yield None))) (\<lambda>wrapper_script.
     seq (set_attr app_config ''desc'' ''shortDescription'') (\<lambda>_.
     seq (set_attr app_config ''queue'' ''defaultQueue'') (\<lambda>_.
     seq (set_attr app_config ''nodeCount'' ''defaultNodeCount'') (\<lambda>_.
     seq (set_attr app_config ''processorsPerNode'' ''defaultProcessorsPerNode'') (\<lambda>_.
     seq (set_attr app_config ''maxRunTime'' ''defaultMaxRunTime'') (\<lambda>_.
     seq (render_submit_script self) (\<lambda>submit_script.
     seq (field ''processorsPerNode'') (\<lambda>ppn.
     seq (read_job (\<lambda>jc. case getitem jc ''inputs'' of Inl e \<Rightarrow> Inl e | Inr i \<Rightarrow> keys i))
       (\<lambda>input_keys.
     seq (stage_inputs self input_keys
            (''\<newline>'' @ fmt self job_dir @ ''/wrapper.sh '' @ '' NP='' @ fmt self ppn,
             wrapper_preamble0)) (\<lambda>acc.
     seq (read_job (\<lambda>jc. case getitem jc ''parameters'' of Inl e \<Rightarrow> Inl e
                          | Inr ps \<Rightarrow> (case ps of PDict d \<Rightarrow> Inr d | _ \<Rightarrow> Inl AttributeError)))
       (\<lambda>params.
     seq (yield (add_parameters self params acc)) (\<lambda>(execute_line, wrapper_preamble).
     seq (read_job (\<lambda>jc. case getitem jc ''job_dir'' of Inl e \<Rightarrow> Inl e
                          | Inr d \<Rightarrow> str_add d (PStr ''/submit_script.sh''))) (\<lambda>submit_dest.
     seq (read_job (\<lambda>jc. case getitem jc ''job_dir'' of Inl e \<Rightarrow> Inl e
                          | Inr (PStr d) \<Rightarrow> Inr (join ''/'' [d, ''/wrapper.sh''])
                          | Inr _ \<Rightarrow> Inl TypeError)) (\<lambda>wrapper_dest.
     seq (act (SftpOpenW submit_dest) (sftp_open_w self submit_dest)) (\<lambda>_.
     seq (act (SftpWrite submit_dest (Text (submit_script @ execute_line @ ''\<newline>'')))
            (sftp_write self submit_dest (Text (submit_script @ execute_line @ ''\<newline>''))))
       (\<lambda>_.
     seq (act (SftpOpenW wrapper_dest) (sftp_open_w self wrapper_dest)) (\<lambda>_.
     seq (case wrapper_script of
            None \<Rightarrow> raise (UnboundLocalError ''wrapper_script'')
          | Some w \<Rightarrow>
              act (SftpWrite wrapper_dest (Text (wrapper_preamble @ ''\<newline>        *)\<newline>    esac\<newline>\<newline>done\<newline>\<newline>'' @ w @ wrapper_post)))
                (sftp_write self wrapper_dest
                   (Text (wrapper_preamble @ ''\<newline>        *)\<newline>    esac\<newline>\<newline>done\<newline>\<newline>'' @ w @ wrapper_post)))) (\<lambda>_.
     seq (try_except
            (seq (execute_command self (''chmod +x '' @ submit_dest))
               (\<lambda>_. seq (execute_command self (''chmod +x '' @ wrapper_dest))
                       (\<lambda>_. yield ())))
            (\<lambda>e. seq (cleanup self) (\<lambda>_. yield ()))) (\<lambda>_.
     seq (try_except (save_job self) (\<lambda>e. seq (cleanup self) (\<lambda>_. raise e))) (\<lambda>_.
       get_job))))))))))))))))))))))))))))))))))))))"

section \<open>Polling a command\<close>

text \<open>
  Modelled from the spec: the life cycle of a command of the Command Execution Protocol.
  The SSH client that polls commands (its \<open>process_command\<close>) is not among the sources;
  only its test is.
\<close>

datatype status = STARTED | RUNNING | COMPLETE | FAILED

text \<open>
  Modelled from the spec: a Command with its status, accumulated output and history of
  (status, timestamp) pairs; the record of the missing SSH client.
\<close>

record command =
  cmd_id :: nat
  cmd_text :: string
  status :: status
  stdout :: string
  stderr :: string
  history :: "(status \<times> nat) list"

text \<open>
  Modelled from the spec: what the channel of a command holds when it is polled: bytes
  that arrived and were not read yet, whether the remote closed it, the exit status, and
  an I/O error of the channel if one is pending; the channel of the missing SSH client.
\<close>

record channel =
  ready_out :: string
  ready_err :: string
  closed :: bool
  exit_code :: int
  fault :: "string option"

text \<open>Modelled from the spec: what can happen on a channel while nobody polls it.\<close>

datatype arrival = Bytes string string | Close int | Fault string

text \<open>Modelled from the spec: the effect of an arrival on the channel of a command.\<close>

fun arrive :: "arrival \<Rightarrow> channel \<Rightarrow> channel" where
  "arrive (Bytes out err) ch =
     (if closed ch then ch
      else ch\<lparr>ready_out := ready_out ch @ out, ready_err := ready_err ch @ err\<rparr>)"
| "arrive (Close n) ch = (if closed ch then ch else ch\<lparr>closed := True, exit_code := n\<rparr>)"
| "arrive (Fault msg) ch = ch\<lparr>fault := Some msg\<rparr>"

text \<open>Modelled from the spec: the terminal statuses, after which a command is frozen.\<close>

definition terminal :: "status \<Rightarrow> bool" where
  "terminal st = (st = COMPLETE \<or> st = FAILED)"

text \<open>
  Modelled from the spec: a change of status appends (status, timestamp) to the history
  (section 4.1, side effects).
\<close>

definition set_status :: "status \<Rightarrow> nat \<Rightarrow> command \<Rightarrow> command" where
  "set_status st now c =
     (if status c = st then c else c\<lparr>status := st, history := history c @ [(st, now)]\<rparr>)"

text \<open>
  Modelled from the spec: \<open>max_bytes\<close> bounds a read of a running command; unspecified or
  negative means all that is available.
\<close>

definition take_bytes :: "int option \<Rightarrow> string \<Rightarrow> string" where
  "take_bytes max_bytes bs =
     (case max_bytes of None \<Rightarrow> bs | Some n \<Rightarrow> if n < 0 then bs else take (nat n) bs)"

text \<open>
  Modelled from the spec: the transition rule of \<open>poll\<close> (section 4.2) on what the channel
  holds now. A terminal command is returned as it is. A channel error fails the command
  with the text of the error added to its standard error. A closed channel is drained in
  full and the exit status decides. Otherwise up to \<open>max_bytes\<close> of each stream are
  appended and a started command becomes running.
\<close>

definition poll_now :: "nat \<Rightarrow> int option \<Rightarrow> channel \<Rightarrow> command \<Rightarrow> command \<times> channel" where
  "poll_now now max_bytes ch c =
     (if terminal (status c) then (c, ch)
      else case fault ch of
        Some msg \<Rightarrow> (set_status FAILED now (c\<lparr>stderr := stderr c @ msg\<rparr>), ch)
      | None \<Rightarrow>
          if closed ch then
            (set_status (if exit_code ch = 0 then COMPLETE else FAILED) now
               (c\<lparr>stdout := stdout c @ ready_out ch, stderr := stderr c @ ready_err ch\<rparr>),
             ch\<lparr>ready_out := [], ready_err := []\<rparr>)
          else
            (set_status RUNNING now
               (c\<lparr>stdout := stdout c @ take_bytes max_bytes (ready_out ch),
                  stderr := stderr c @ take_bytes max_bytes (ready_err ch)\<rparr>),
             ch\<lparr>ready_out := drop (length (take_bytes max_bytes (ready_out ch))) (ready_out ch),
                ready_err := drop (length (take_bytes max_bytes (ready_err ch)))
                               (ready_err ch)\<rparr>))"

text \<open>
  Modelled from the spec: whether a poll has something to act on: the command is frozen,
  data is ready, the channel is closed or broken.
\<close>

definition actionable :: "channel \<Rightarrow> command \<Rightarrow> bool" where
  "actionable ch c =
     (terminal (status c) \<or> ready_out ch \<noteq> [] \<or> ready_err ch \<noteq> [] \<or> closed ch
      \<or> fault ch \<noteq> None)"

text \<open>
  Modelled from the spec: \<open>poll(id, wait, max_bytes)\<close>. With \<open>wait\<close> false it acts on the
  channel as it is. With \<open>wait\<close> true and nothing to act on it blocks while the arrivals
  still to come reach the channel; when none is left it never returns (\<open>None\<close>).
\<close>

fun poll ::
  "nat \<Rightarrow> bool \<Rightarrow> int option \<Rightarrow> arrival list \<Rightarrow> channel \<Rightarrow> command
     \<Rightarrow> (command \<times> channel \<times> arrival list) option"
where
  "poll now wait max_bytes [] ch c =
     (if \<not> wait \<or> actionable ch c then
        (case poll_now now max_bytes ch c of (c', ch') \<Rightarrow> Some (c', ch', []))
      else None)"
| "poll now wait max_bytes (a # future) ch c =
     (if \<not> wait \<or> actionable ch c then
        (case poll_now now max_bytes ch c of (c', ch') \<Rightarrow> Some (c', ch', a # future))
      else poll now wait max_bytes future (arrive a ch) c)"

text \<open>
  Modelled from the spec: what a caller does with one command over time: it polls, or it
  does something else while the next arrivals reach the channel.
\<close>

datatype step = Poll nat bool "int option" | Elapse nat

text \<open>
  Modelled from the spec: the snapshots that the successive polls of a caller return, in
  order; a poll that blocks for ever ends the list.
\<close>

fun polls :: "step list \<Rightarrow> arrival list \<Rightarrow> channel \<Rightarrow> command \<Rightarrow> command list" where
  "polls [] future ch c = []"
| "polls (Elapse n # steps) future ch c =
     polls steps (drop n future) (fold arrive (take n future) ch) c"
| "polls (Poll now wait max_bytes # steps) future ch c =
     (case poll now wait max_bytes future ch c of
        None \<Rightarrow> []
      | Some (c', ch', future') \<Rightarrow> c' # polls steps future' ch' c')"

section \<open>A simulated remote host\<close>

text \<open>
  A concrete world to run the methods in: the remote files seen through SFTP, a clock that
  counts its readings, and the answers the user will type. Opening a file for writing
  creates or truncates it.
\<close>

record sim =
  files :: "(string \<times> content) list"
  ticks :: nat
  typed :: "string list"

definition stamp :: "nat \<Rightarrow> string" where
  "stamp n = ''20210101_00000'' @ [''0123456789'' ! (n mod 10)]"

definition ok :: "string \<Rightarrow> response" where
  "ok out = \<lparr>stdout_bytes = out, stderr_bytes = [], exit_status = 0\<rparr>"

definition failed :: "string \<Rightarrow> response" where
  "failed err = \<lparr>stdout_bytes = [], stderr_bytes = err, exit_status = 1\<rparr>"

text \<open>A shell in which every command succeeds; \<open>sbatch\<close> reports job 42.\<close>

definition shell :: "string \<Rightarrow> response" where
  "shell cmnd =
     (if take 7 cmnd = ''ls -lat'' then
        ok ''total 8\<newline>drwx 2 u g 4096 Jan 1 00:00 app1\<newline>drwx 2 u g 4096 Jan 1 00:00 job1_20210101_000000\<newline>''
      else if take 3 cmnd = ''cd '' then ok ''Submitted batch job 42\<newline>''
      else if take 4 cmnd = ''cat '' then ok ''run\<newline>''
      else ok [])"

text \<open>The same shell, except that commands with the given prefix answer \<open>r\<close>.\<close>

definition shell_but :: "string \<Rightarrow> response \<Rightarrow> string \<Rightarrow> response" where
  "shell_but pre r cmnd = (if take (length pre) cmnd = pre then r else shell cmnd)"

definition job_json :: pyval where
  "job_json = PDict [(''name'', PStr ''job1''), (''appId'', PStr ''app1''),
                     (''slurm'', PDict []), (''inputs'', PDict [(''in1'', PStr ''data/in1.txt'')]),
                     (''parameters'', PDict [(''p'', PStr ''1'')])]"

definition app_json :: pyval where
  "app_json = PDict [(''name'', PStr ''app1''), (''shortDescription'', PStr ''demo''),
                     (''defaultQueue'', PStr ''normal''), (''defaultNodeCount'', PStr ''1''),
                     (''defaultProcessorsPerNode'', PStr ''1''),
                     (''defaultMaxRunTime'', PStr ''00:10:00''),
                     (''templatePath'', PStr ''run.sh'')]"

text \<open>
  The local side: no local path is a directory, and the only paths made absolute are
  absolute already and end in \<open>/..\<close>, so that dropping the last two components normalises
  them.
\<close>

definition dirname :: "string \<Rightarrow> string" where
  "dirname p = rev (drop 1 (dropWhile (\<lambda>c. c \<noteq> CHR ''/'') (rev p)))"

definition sim_manager :: "(string \<Rightarrow> response) \<Rightarrow> sim manager" where
  "sim_manager sh =
     \<lparr>jobs_dir = ''/s/jobs'', apps_dir = ''/s/apps'',
      exec_command = (\<lambda>cmnd w. (Inr (sh cmnd), w)),
      sftp_open_w = (\<lambda>p w. (Inr (), w\<lparr>files := AList.update p (Text []) (files w)\<rparr>)),
      sftp_write = (\<lambda>p c w. (Inr (), w\<lparr>files := AList.update p c (files w)\<rparr>)),
      sftp_read = (\<lambda>p w. case map_of (files w) p of None \<Rightarrow> Inl FileNotFoundError
                          | Some c \<Rightarrow> Inr c),
      sftp_put = (\<lambda>l r w. (Inr (), w\<lparr>files := AList.update r (Text l) (files w)\<rparr>)),
      isdir = (\<lambda>p w. False),
      abspath = (\<lambda>p w. dirname (dirname p)),
      tar_add = (\<lambda>t l a h w. (Inr (), w)),
      os_remove = (\<lambda>t w. (Inr (), w)),
      strftime_now = (\<lambda>w. (stamp (ticks w), w\<lparr>ticks := Suc (ticks w)\<rparr>)),
      input = (\<lambda>prompt w. case typed w of [] \<Rightarrow> ([], w) | a # as \<Rightarrow> (a, w\<lparr>typed := as\<rparr>)),
      py_str = (\<lambda>v. ''None''),
      load_project_config = (\<lambda>p w. Inr (PDict [])),
      load_templated_json_file = (\<lambda>p cfg w. Inr job_json)\<rparr>"

definition sim0 :: sim where
  "sim0 = \<lparr>files = [(''/s/apps/app1/app.json'', Json app_json)], ticks = 0,
           typed = [''yes'', ''yes'']\<rparr>"

text \<open>A record as \<open>setup_job\<close> leaves it, and one as a successful \<open>submit_job\<close> leaves it.\<close>

definition job1 :: pyval where
  "job1 = PDict [(''name'', PStr ''job1''), (''appId'', PStr ''app1''), (''slurm'', PDict []),
                 (''ts'', PDict [(''setup_ts'', PStr ''20210101_000000''), (''submit_ts'', PNone),
                               (''start_ts'', PNone), (''end_ts'', PNone)]),
                 (''job_id'', PStr ''job1_20210101_000000''),
                 (''job_dir'', PStr ''/s/jobs/job1_20210101_000000'')]"

definition job1_submitted :: pyval where
  "job1_submitted =
     PDict [(''name'', PStr ''job1''), (''appId'', PStr ''app1''),
            (''slurm'', PDict [(''slurm_id'', PStr ''42'')]),
            (''ts'', PDict [(''setup_ts'', PStr ''20210101_000000''),
                          (''submit_ts'', PStr ''20210101_000000''),
                          (''start_ts'', PNone), (''end_ts'', PNone),
                          (''dump_ts'', PStr ''20210101_000001'')]),
            (''job_id'', PStr ''job1_20210101_000000''),
            (''job_dir'', PStr ''/s/jobs/job1_20210101_000000'')]"

text \<open>The record of \<open>job1\<close> as a first \<open>save_job\<close> leaves it.\<close>

definition job1_saved :: pyval where
  "job1_saved =
     PDict [(''name'', PStr ''job1''), (''appId'', PStr ''app1''), (''slurm'', PDict []),
            (''ts'', PDict [(''setup_ts'', PStr ''20210101_000000''), (''submit_ts'', PNone),
                          (''start_ts'', PNone), (''end_ts'', PNone),
                          (''dump_ts'', PStr ''20210101_000000'')]),
            (''job_id'', PStr ''job1_20210101_000000''),
            (''job_dir'', PStr ''/s/jobs/job1_20210101_000000'')]"

definition start :: "pyval \<Rightarrow> sim state" where
  "start jc = \<lparr>job_config = jc, world = sim0, trace = []\<rparr>"

text \<open>
  A host on which a write through SFTP fails once the file is open, and a world in which
  the record of \<open>job1\<close> has been saved before.
\<close>

definition lossy :: "sim manager" where
  "lossy = (sim_manager shell)\<lparr>sftp_write := (\<lambda>p c w. (Inl (IOError ''connection lost''), w))\<rparr>"

definition sim1 :: sim where
  "sim1 = sim0\<lparr>files := files sim0 @ [(''/s/jobs/job1_20210101_000000/job_config.json'',
                                          Json job1)]\<rparr>"

text \<open>
  A command \<open>echo hi\<close> whose output arrives and whose channel then closes with status 0,
  polled four times.
\<close>

definition echo_cmd :: command where
  "echo_cmd = \<lparr>cmd_id = 0, cmd_text = ''echo hi'', status = STARTED, stdout = [], stderr = [],
               history = []\<rparr>"

definition idle :: channel where
  "idle = \<lparr>ready_out = [], ready_err = [], closed = False, exit_code = 0, fault = None\<rparr>"

definition echo_future :: "arrival list" where
  "echo_future = [Bytes ''hi\<newline>'' [], Close 0]"

definition echo_steps :: "step list" where
  "echo_steps = [Poll 1 False None, Elapse 1, Poll 2 False (Some 1), Poll 3 True None,
                 Poll 4 True None]"

text \<open>A host on which the upload of an input file fails: the local file is not there.\<close>

definition no_upload :: "sim manager" where
  "no_upload = (sim_manager shell)\<lparr>sftp_put := (\<lambda>l r w. (Inl FileNotFoundError, w))\<rparr>"

text \<open>The commands in a trace, and the states used in the examples below.\<close>

definition commands :: "event list \<Rightarrow> string list" where
  "commands tr = concat (map (\<lambda>ev. case ev of Cmd c \<Rightarrow> [c] | _ \<Rightarrow> []) tr)"

definition warned :: response where
  "warned = \<lparr>stdout_bytes = ''hi\<newline>'', stderr_bytes = ''warning'', exit_status = 0\<rparr>"

section \<open>The invariant of a job record\<close>

text \<open>
  A timestamp is set when the key is there with a value other than \<open>None\<close>; the scheduler
  job identifier is present when \<open>job_config['slurm']\<close> has the key \<open>slurm_id\<close>.
\<close>

definition ts_of :: "pyval \<Rightarrow> string \<Rightarrow> exn + pyval" where
  "ts_of jc k = getitem2 jc ''ts'' k"

definition is_set :: "exn + pyval \<Rightarrow> bool" where
  "is_set r = (case r of Inr v \<Rightarrow> v \<noteq> PNone | Inl e \<Rightarrow> False)"

definition has_slurm_id :: "pyval \<Rightarrow> bool" where
  "has_slurm_id jc = (case getitem2 jc ''slurm'' ''slurm_id'' of Inr v \<Rightarrow> True | Inl e \<Rightarrow> False)"

definition ts_inv :: "pyval \<Rightarrow> bool" where
  "ts_inv jc = (is_set (ts_of jc ''submit_ts'') \<longrightarrow> is_set (ts_of jc ''setup_ts''))"

definition id_inv :: "pyval \<Rightarrow> bool" where
  "id_inv jc = (has_slurm_id jc \<longleftrightarrow> is_set (ts_of jc ''submit_ts''))"

text \<open>
  How \<open>submit_job\<close> leaves a record: submitted, with both timestamps set and an identifier
  that is not a sentinel; or rejected on a sentinel, which stays in the record under
  \<open>slurm_id\<close>, next to the raw output under \<open>sbatch_ret\<close>, while \<open>submit_ts\<close> is \<open>None\<close>.
\<close>

definition submitted :: "pyval \<Rightarrow> bool" where
  "submitted jc =
     (is_set (ts_of jc ''setup_ts'') \<and> (\<exists>t. ts_of jc ''submit_ts'' = Inr (PStr t))
      \<and> (\<exists>i. getitem2 jc ''slurm'' ''slurm_id'' = Inr (PStr i) \<and> i \<noteq> ''FAILED'' \<and> i \<noteq> []))"

definition rejected :: "pyval \<Rightarrow> bool" where
  "rejected jc =
     ((getitem2 jc ''slurm'' ''slurm_id'' = Inr (PStr ''FAILED'')
       \<or> getitem2 jc ''slurm'' ''slurm_id'' = Inr (PStr []))
      \<and> (\<exists>ret. getitem2 jc ''slurm'' ''sbatch_ret'' = Inr (PStr ret))
      \<and> is_set (ts_of jc ''setup_ts'') \<and> ts_of jc ''submit_ts'' = Inr PNone)"

text \<open>How a successful \<open>cancel_job\<close> leaves a record.\<close>

definition cancelled :: "pyval \<Rightarrow> bool" where
  "cancelled jc =
     (ts_of jc ''setup_ts'' = Inr PNone \<and> ts_of jc ''submit_ts'' = Inr PNone
      \<and> ts_of jc ''start_ts'' = Inr PNone \<and> ts_of jc ''end_ts'' = Inr PNone
      \<and> \<not> has_slurm_id jc)"

text \<open>The record that \<open>save_job\<close> leaves: the one it was given with \<open>dump_ts\<close> stamped.\<close>

definition dumped :: "'w manager \<Rightarrow> 'w state \<Rightarrow> pyval \<Rightarrow> bool" where
  "dumped self s j =
     (setitem2 (job_config s) ''ts'' ''dump_ts'' (PStr (fst (strftime_now self (world s)))) = Inr j)"

text \<open>What holds of the result and the final state of a program run from \<open>s\<close>.\<close>

definition post :: "('w, 'a) prog \<Rightarrow> 'w state \<Rightarrow> ((exn + 'a) \<Rightarrow> 'w state \<Rightarrow> bool) \<Rightarrow> bool" where
  "post m s Q = (\<forall>r s'. m s = (r, s') \<longrightarrow> Q r s')"

section \<open>Rules for programs\<close>

lemmas prog_defs = seq_def try_except_def yield_def raise_def lift_def read_job_def
  update_job_def get_job_def act_def ask_def peek_def put_job_def field_def

lemma seq_weak_cong: "m = m' \<Longrightarrow> s = s' \<Longrightarrow> seq m k s = seq m' k s'"
  by simp

lemma try_weak_cong: "m = m' \<Longrightarrow> s = s' \<Longrightarrow> try_except m h s = try_except m' h s'"
  by simp

lemmas run_defs = prog_defs
  setup_job_def submit_job_def cancel_job_def cleanup_job_def save_job_def load_job_config_def
  execute_command_def list_files_def get_apps_def get_jobs_def load_app_config_def
  get_app_wrapper_script_def cleanup_def set_attr_def get_attr_def render_submit_script_def
  sim_manager_def shell_but_def shell_def ok_def failed_def warned_def start_def sim0_def
  job_json_def app_json_def job1_def job1_submitted_def lossy_def sim1_def no_upload_def
  job1_saved_def send_file_def dirname_def
  wrapper_preamble0_def wrapper_post_def case_line_def
  decode_ascii_def decode_utf8_def os_path_join_def fmt_def getitem2_def setitem2_def pop2_def
  fresh_ts_def stamp_def json_load_def last_field_def is_space_def keys_def basename_def
  submit_header_def parse_slurm_id_def index_m1_def index_m2_def lower_def commands_def

text \<open>Running a sequence on a concrete state, one step at a time.\<close>

lemma seq_run: "m s = (Inr x, s1) \<Longrightarrow> k x s1 = res \<Longrightarrow> seq m k s = res"
  by (simp add: seq_def)

lemma seq_fail: "m s = (Inl e, s1) \<Longrightarrow> seq m k s = (Inl e, s1)"
  by (simp add: seq_def)

lemma postD: "post m s Q \<Longrightarrow> m s = (r, s') \<Longrightarrow> Q r s'"
  by (simp add: post_def)

lemma post_conseq: "post m s P \<Longrightarrow> (\<And>r s'. P r s' \<Longrightarrow> Q r s') \<Longrightarrow> post m s Q"
  by (simp add: post_def)

lemma post_seq [simp]:
  "post (seq m k) s Q =
     post m s (\<lambda>r s1. (\<forall>e. r = Inl e \<longrightarrow> Q (Inl e) s1) \<and> (\<forall>x. r = Inr x \<longrightarrow> post (k x) s1 Q))"
  by (auto simp: post_def seq_def split: prod.splits sum.splits)

lemma post_try [simp]:
  "post (try_except m h) s Q =
     post m s (\<lambda>r s1. (\<forall>e. r = Inl e \<longrightarrow> post (h e) s1 Q) \<and> (\<forall>x. r = Inr x \<longrightarrow> Q (Inr x) s1))"
  by (auto simp: post_def try_except_def split: prod.splits sum.splits)

lemma post_case_option [simp]:
  "post (case x of None \<Rightarrow> m | Some y \<Rightarrow> n y) s Q =
     ((x = None \<longrightarrow> post m s Q) \<and> (\<forall>y. x = Some y \<longrightarrow> post (n y) s Q))"
  by (cases x) simp_all

lemma post_case_prod [simp]:
  "post (case p of (a, b) \<Rightarrow> f a b) s Q = post (f (fst p) (snd p)) s Q"
  by (cases p) simp

lemma post_yield [simp]: "post (yield x) s Q = Q (Inr x) s"
  by (simp add: post_def yield_def)

lemma post_raise [simp]: "post (raise e) s Q = Q (Inl e) s"
  by (simp add: post_def raise_def)

lemma post_lift [simp]: "post (lift r) s Q = Q r s"
  by (simp add: post_def lift_def)

lemma post_get_job [simp]: "post get_job s Q = Q (Inr (job_config s)) s"
  by (simp add: post_def get_job_def)

lemma post_read_job [simp]: "post (read_job f) s Q = Q (f (job_config s)) s"
  by (simp add: post_def read_job_def)

lemma post_field [simp]: "post (field k) s Q = Q (getitem (job_config s) k) s"
  by (simp add: field_def)

lemma post_put_job [simp]: "post (put_job j) s Q = Q (Inr ()) (s\<lparr>job_config := j\<rparr>)"
  by (simp add: post_def put_job_def)

lemma post_update_job [simp]:
  "post (update_job g) s Q =
     ((\<forall>e. g (job_config s) = Inl e \<longrightarrow> Q (Inl e) s)
      \<and> (\<forall>j. g (job_config s) = Inr j \<longrightarrow> Q (Inr ()) (s\<lparr>job_config := j\<rparr>)))"
  by (auto simp: post_def update_job_def split: sum.splits)

lemma post_peek [simp]: "post (peek p) s Q = Q (p (world s)) s"
  by (simp add: post_def peek_def)

lemma post_ask [simp]:
  "post (ask f) s Q = Q (Inr (fst (f (world s)))) (s\<lparr>world := snd (f (world s))\<rparr>)"
  by (auto simp: post_def ask_def split: prod.splits)

lemma post_act [simp]:
  "post (act ev f) s Q =
     Q (fst (f (world s))) (s\<lparr>world := snd (f (world s)), trace := trace s @ [ev]\<rparr>)"
  by (auto simp: post_def act_def split: prod.splits)

lemma post_if [simp]:
  "post (if b then m else n) s Q = (if b then post m s Q else post n s Q)"
  by simp

lemma commands_append [simp]: "commands (xs @ ys) = commands xs @ commands ys"
  by (simp add: commands_def)

lemma commands_simps [simp]:
  "commands [] = []"
  "commands (Cmd c # tr) = c # commands tr"
  "commands (SftpOpenW p # tr) = commands tr"
  "commands (SftpWrite p d # tr) = commands tr"
  "commands (Upload l p # tr) = commands tr"
  "commands (Tar t l # tr) = commands tr"
  "commands (Remove t # tr) = commands tr"
  by (simp_all add: commands_def)

text \<open>A command leaves the record alone and adds itself to the trace.\<close>

lemma post_execute_command:
  "(\<And>r s'. job_config s' = job_config s \<Longrightarrow> trace s' = trace s @ [Cmd c] \<Longrightarrow> Q r s')
   \<Longrightarrow> post (execute_command self c) s Q"
  unfolding execute_command_def by simp

section \<open>Rules for dictionaries\<close>

lemma getitem_setitem:
  "setitem v k x = Inr v' \<Longrightarrow> getitem v' k' = (if k' = k then Inr x else getitem v k')"
  by (cases v) (auto simp: update_conv')

lemma getitem2_setitem2:
  "setitem2 v a b x = Inr v' \<Longrightarrow>
   getitem2 v' a' b' = (if a' = a \<and> b' = b then Inr x else getitem2 v a' b')"
  by (cases v; cases "a' = a")
     (auto simp: setitem2_def getitem2_def update_conv' getitem_setitem
        split: sum.splits option.splits)

lemma getitem_setitem2:
  "setitem2 v a b x = Inr v' \<Longrightarrow> a' \<noteq> a \<Longrightarrow> getitem v' a' = getitem v a'"
  by (cases v) (auto simp: setitem2_def update_conv' split: sum.splits option.splits)

lemma getitem2_setitem:
  "setitem v a x = Inr v' \<Longrightarrow>
   getitem2 v' a' b' = (if a' = a then getitem x b' else getitem2 v a' b')"
  by (cases v) (auto simp: getitem2_def update_conv')

lemma getitem2_pop2:
  "pop2 d v a b = Inr v' \<Longrightarrow>
   getitem2 v' a' b' = (if a' = a \<and> b' = b then Inl (KeyError b) else getitem2 v a' b')"
proof (cases v)
  case (PDict m)
  assume p: "pop2 d v a b = Inr v'"
  show ?thesis
  proof (cases "a' = a")
    case True
    from p PDict obtain u u' where u: "map_of m a = Some u" "pop d u b = Inr u'"
      "v' = PDict (AList.update a u' m)"
      by (auto simp: pop2_def split: sum.splits option.splits)
    from u(2) obtain n where n: "u = PDict n" "u' = PDict (AList.delete b n)"
      by (cases u) (auto split: if_splits)
    show ?thesis using True PDict u n
      by (auto simp: getitem2_def update_conv' delete_conv')
  next
    case False
    then show ?thesis using p PDict
      by (auto simp: pop2_def getitem2_def update_conv' split: sum.splits option.splits)
  qed
qed (auto simp: pop2_def)

lemma getitem_pop2:
  "pop2 d v a b = Inr v' \<Longrightarrow> a' \<noteq> a \<Longrightarrow> getitem v' a' = getitem v a'"
  by (cases v) (auto simp: pop2_def update_conv' split: sum.splits option.splits)

lemmas item_simps = getitem2_setitem2 getitem2_pop2 getitem2_setitem getitem_setitem
  getitem_setitem2 getitem_pop2

text \<open>Once \<open>v[a][b]\<close> has been read, \<open>v[a]\<close> is a dictionary: writing to it cannot fail.\<close>

lemma setitem2_ok: "getitem2 v a b = Inr x \<Longrightarrow> setitem2 v a b' y \<noteq> Inl e"
  apply (cases v; simp add: getitem2_def setitem2_def split: sum.splits option.splits)
  subgoal for m u by (cases u) auto
  done

lemma pop2_ok: "getitem2 v a b = Inr x \<Longrightarrow> pop2 True v a b' \<noteq> Inl e"
  apply (cases v; simp add: getitem2_def pop2_def split: sum.splits option.splits)
  subgoal for m u by (cases u) auto
  done

lemma pop2_present_ok: "getitem2 v a b = Inr x \<Longrightarrow> pop2 False v a b \<noteq> Inl e"
  apply (cases v; simp add: getitem2_def pop2_def split: sum.splits option.splits)
  subgoal for m u by (cases u) (auto split: option.splits dest: map_of_SomeD intro: rev_image_eqI)
  done

lemma setitem_after_pop2: "pop2 d v a b = Inr v' \<Longrightarrow> setitem v' k x \<noteq> Inl e"
  by (cases v) (auto simp: pop2_def split: sum.splits)

lemma setitem_after_setitem2: "setitem2 v a b y = Inr v' \<Longrightarrow> setitem v' k x \<noteq> Inl e"
  by (cases v) (auto simp: setitem2_def split: sum.splits)

lemma setitem_after_setitem: "setitem v a y = Inr v' \<Longrightarrow> setitem v' k x \<noteq> Inl e"
  by (cases v) auto

section \<open>The record store\<close>

lemma post_save_job:
  assumes "\<And>e s'. job_config s' = job_config s \<Longrightarrow> trace s' = trace s \<Longrightarrow> Q (Inl e) s'"
    and "\<And>r s'. dumped self s (job_config s') \<Longrightarrow>
           commands (trace s') = commands (trace s) \<Longrightarrow> Q r s'"
  shows "post (save_job self) s Q"
  unfolding save_job_def
  apply simp
  apply (intro conjI allI impI)
  apply (rule assms(1), simp, simp)
  apply (rule assms(2), simp add: dumped_def, simp)+
  done

lemma save_job_Inr:
  assumes "save_job self s = (Inr u, s')"
  shows "\<exists>d. getitem (job_config s') ''job_dir'' = Inr (PStr d)
           \<and> dumped self s (job_config s')
           \<and> fst (sftp_write self (d @ ''/job_config.json'') (Json (job_config s'))
                  (snd (sftp_open_w self (d @ ''/job_config.json'')
                          (snd (strftime_now self (world s)))))) = Inr ()
           \<and> world s' = snd (sftp_write self (d @ ''/job_config.json'') (Json (job_config s'))
                  (snd (sftp_open_w self (d @ ''/job_config.json'')
                          (snd (strftime_now self (world s))))))
           \<and> trace s' = trace s @ [SftpOpenW (d @ ''/job_config.json''),
                                    SftpWrite (d @ ''/job_config.json'') (Json (job_config s'))]"
proof -
  have "post (save_job self) s (\<lambda>r s'. r = Inr () \<longrightarrow> (\<exists>d. getitem (job_config s') ''job_dir'' = Inr (PStr d)
           \<and> dumped self s (job_config s')
           \<and> fst (sftp_write self (d @ ''/job_config.json'') (Json (job_config s'))
                  (snd (sftp_open_w self (d @ ''/job_config.json'')
                          (snd (strftime_now self (world s)))))) = Inr ()
           \<and> world s' = snd (sftp_write self (d @ ''/job_config.json'') (Json (job_config s'))
                  (snd (sftp_open_w self (d @ ''/job_config.json'')
                          (snd (strftime_now self (world s))))))
           \<and> trace s' = trace s @ [SftpOpenW (d @ ''/job_config.json''),
                                    SftpWrite (d @ ''/job_config.json'') (Json (job_config s'))]))"
    unfolding save_job_def
    by (auto simp: dumped_def split: sum.splits elim!: str_add.elims)
  from postD [OF this assms] show ?thesis by simp
qed

section \<open>Running a command: classification of the outcome\<close>

text \<open>
  C1, as the code has it. \<open>_execute_command\<close> classifies a command by its standard error
  alone: when the streams decode, the call raises \<open>Exception\<close> with the text of standard
  error if there is any, and returns standard output otherwise. The exit status of the
  response has no part in the result.
\<close>

theorem execute_command_classifies_by_stderr:
  assumes "exec_command self cmnd (world s) = (Inr r, w)"
    and "decode_ascii (stdout_bytes r) = Inr out"
    and "decode_utf8 (stderr_bytes r) = Inr err"
  shows "execute_command self cmnd s =
           (if err = [] then Inr out else Inl (Exception err),
            s\<lparr>world := w, trace := trace s @ [Cmd cmnd]\<rparr>)"
  using assms by (simp add: execute_command_def prog_defs)

theorem execute_command_classifies_by_stderr_witness:
  "execute_command (sim_manager (shell_but ''echo'' (failed ''no''))) ''echo hi'' (start PNone) =
     (Inl (Exception ''no''), (start PNone)\<lparr>world := sim0, trace := [Cmd ''echo hi'']\<rparr>)
   \<and> execute_command (sim_manager shell) ''cat x'' (start PNone) =
     (Inr ''run\<newline>'', (start PNone)\<lparr>world := sim0, trace := [Cmd ''cat x'']\<rparr>)"
  using
    execute_command_classifies_by_stderr [of "sim_manager (shell_but ''echo'' (failed ''no''))"
      "''echo hi''" "start PNone" "failed ''no''" sim0 "[]" "''no''"]
    execute_command_classifies_by_stderr [of "sim_manager shell"
      "''cat x''" "start PNone" "ok ''run\<newline>''" sim0 "''run\<newline>''" "[]"]
  by (simp add: sim_manager_def shell_but_def shell_def failed_def ok_def start_def
        decode_ascii_def decode_utf8_def)

text \<open>
  C1, as the claim states it, fails: a command that exits with status 0 and has written to
  standard error makes the call raise.
\<close>

theorem exit_zero_with_stderr_raises:
  "exit_status warned = 0
   \<and> fst (exec_command (sim_manager (shell_but ''echo'' warned)) ''echo hi'' sim0) = Inr warned
   \<and> fst (execute_command (sim_manager (shell_but ''echo'' warned)) ''echo hi'' (start PNone))
       = Inl (Exception ''warning'')"
  by (simp add: run_defs)

section \<open>Guards of the transitions\<close>

text \<open>
  C5. \<open>cancel_job\<close> on a record whose \<open>submit_ts\<close> is \<open>None\<close> raises its own exception
  (the generic \<open>Exception\<close>, the only kind the source raises for an invalid transition) and
  ends in the state it started in: no command was issued, nothing was written, the record
  is the same.
\<close>

theorem cancel_before_submit_rejected:
  "getitem2 (job_config s) ''ts'' ''submit_ts'' = Inr PNone \<Longrightarrow>
   cancel_job self s = (Inl (Exception ''Job has not been submitted yet.''), s)"
  by (simp add: cancel_job_def prog_defs)

theorem cancel_before_submit_rejected_witness:
  "getitem2 (job_config (start job1)) ''ts'' ''submit_ts'' = Inr PNone
   \<and> cancel_job (sim_manager shell) (start job1) =
       (Inl (Exception ''Job has not been submitted yet.''), start job1)"
  using cancel_before_submit_rejected [of "start job1" "sim_manager shell"]
  by (simp add: start_def job1_def getitem2_def)

section \<open>Submitting a job\<close>

lemmas inv_defs = ts_inv_def id_inv_def ts_of_def has_slurm_id_def is_set_def

lemma submit_data:
  assumes "getitem2 j0 ''ts'' ''setup_ts'' = Inr a" "a \<noteq> PNone"
    and "getitem2 j0 ''ts'' ''submit_ts'' = Inr PNone"
    and "setitem2 j0 ''slurm'' ''slurm_id'' (PStr sid) = Inr j1"
  shows "ts_inv j1"
    and "setitem2 j1 ''slurm'' ''sbatch_ret'' (PStr ret) = Inr j2 \<Longrightarrow> ts_inv j2"
    and "sid = ''FAILED'' \<or> sid = [] \<Longrightarrow>
         setitem2 j1 ''slurm'' ''sbatch_ret'' (PStr ret) = Inr j2 \<Longrightarrow> rejected j2"
    and "pop2 True j1 ''slurm'' ''sbatch_ret'' = Inr j2 \<Longrightarrow>
         setitem2 j2 ''ts'' ''submit_ts'' (PStr t) = Inr j3 \<Longrightarrow>
         sid \<noteq> ''FAILED'' \<Longrightarrow> sid \<noteq> [] \<Longrightarrow>
         ts_inv j3 \<and> id_inv j3 \<and> submitted j3"
    and "pop2 True j1 ''slurm'' ''sbatch_ret'' = Inr j2 \<Longrightarrow>
         setitem2 j2 ''ts'' ''submit_ts'' (PStr t) = Inr j3 \<Longrightarrow>
         setitem2 j3 ''ts'' ''dump_ts'' x = Inr j4 \<Longrightarrow>
         sid \<noteq> ''FAILED'' \<Longrightarrow> sid \<noteq> [] \<Longrightarrow>
         ts_inv j4 \<and> id_inv j4 \<and> submitted j4"
  using assms
  by (auto simp add: inv_defs submitted_def rejected_def item_simps)

lemma submit_no_fail:
  assumes "setitem2 j0 ''slurm'' ''slurm_id'' (PStr sid) = Inr j1"
  shows "setitem2 j1 ''slurm'' ''sbatch_ret'' y \<noteq> Inl e"
    and "pop2 True j1 ''slurm'' ''sbatch_ret'' \<noteq> Inl e"
    and "getitem2 j1 ''slurm'' ''slurm_id'' = Inr (PStr sid)"
  using assms getitem2_setitem2 [OF assms, of "''slurm''" "''slurm_id''"]
  by (auto dest: setitem2_ok pop2_ok)

lemma submit_no_fail2:
  assumes "getitem2 j0 ''ts'' ''submit_ts'' = Inr PNone"
    and "setitem2 j0 ''slurm'' ''slurm_id'' (PStr sid) = Inr j1"
    and "pop2 True j1 ''slurm'' ''sbatch_ret'' = Inr j2"
  shows "setitem2 j2 ''ts'' ''submit_ts'' y \<noteq> Inl e"
proof -
  have "getitem2 j2 ''ts'' ''submit_ts'' = Inr PNone"
    using assms by (simp add: item_simps)
  then show ?thesis by (rule setitem2_ok)
qed

lemma submit_job_post:
  "post (submit_job self) s (\<lambda>r s'.
      (ts_inv (job_config s) \<longrightarrow> ts_inv (job_config s'))
    \<and> (id_inv (job_config s) \<longrightarrow> id_inv (job_config s')
         \<or> r = Inl (Exception ''Failed to submit SLURM Job!'') \<and> rejected (job_config s'))
    \<and> (\<forall>v. r = Inr v \<longrightarrow> v = job_config s' \<and> submitted (job_config s')))"
  unfolding submit_job_def
  apply simp
  apply (intro conjI allI impI post_execute_command)
  apply (simp_all add: submit_no_fail submit_no_fail2)
  apply (blast intro: submit_data(2))
  apply (blast intro: submit_data(3))
  apply (blast intro: submit_data(2))
  apply (blast intro: submit_data(3))
  apply (rule post_save_job)
  apply (auto simp: dumped_def dest: submit_data(4) submit_data(5))
  done

lemma submit_job_Inr:
  "submit_job self s = (Inr v, s') \<Longrightarrow> v = job_config s' \<and> submitted (job_config s')"
  using postD [OF submit_job_post, of self s "Inr v" s'] by simp

lemma submit_guard:
  assumes "submitted (job_config s)"
  shows "submit_job self s =
           (Inl (Exception ''Job has not been initialized or has already been submitted.''), s)"
  using assms
  by (auto simp add: submit_job_def prog_defs submitted_def is_set_def ts_of_def split: sum.splits)

text \<open>
  C4. Once \<open>submit_job\<close> has returned on a record, a further \<open>submit_job\<close> on that
  record (whatever has happened to the world since) raises the exception of the guard and
  ends in the state it started in: no command is issued, and the identifier that the first
  call stored is still in the record.
\<close>

theorem second_submit_rejected:
  assumes "submit_job self s = (Inr v, s1)" and "job_config s2 = job_config s1"
  shows "submit_job self s2 =
           (Inl (Exception ''Job has not been initialized or has already been submitted.''), s2)
         \<and> (\<exists>i. getitem2 (job_config s2) ''slurm'' ''slurm_id'' = Inr (PStr i)
                \<and> i \<noteq> ''FAILED'' \<and> i \<noteq> [])"
proof -
  from submit_job_Inr [OF assms(1)] assms(2) have sub: "submitted (job_config s2)"
    by simp
  then show ?thesis
    using submit_guard [OF sub] by (simp add: submitted_def)
qed

theorem second_submit_rejected_witness:
  "fst (submit_job (sim_manager shell) (start job1)) = Inr job1_submitted
   \<and> submit_job (sim_manager shell) (snd (submit_job (sim_manager shell) (start job1))) =
       (Inl (Exception ''Job has not been initialized or has already been submitted.''),
        snd (submit_job (sim_manager shell) (start job1)))
   \<and> (\<exists>i. getitem2 (job_config (snd (submit_job (sim_manager shell) (start job1))))
         ''slurm'' ''slurm_id'' = Inr (PStr i) \<and> i \<noteq> ''FAILED'' \<and> i \<noteq> [])"
proof -
  have f: "fst (submit_job (sim_manager shell) (start job1)) = Inr job1_submitted"
    by (simp add: run_defs cong: seq_weak_cong try_weak_cong)
  then have run: "submit_job (sim_manager shell) (start job1) =
      (Inr job1_submitted, snd (submit_job (sim_manager shell) (start job1)))"
    by (simp add: prod_eq_iff)
  from second_submit_rejected [OF run refl] f show ?thesis
    by simp
qed


section \<open>Cancelling and cleaning up\<close>

lemma cancel_data:
  assumes "pop2 False v ''slurm'' ''slurm_id'' = Inr j1" "setitem j1 ''ts'' fresh_ts = Inr j2"
  shows "ts_inv j2 \<and> id_inv j2 \<and> cancelled j2 \<and> getitem j2 ''job_dir'' = getitem v ''job_dir''"
    and "setitem2 j2 ''ts'' ''dump_ts'' x = Inr j3 \<Longrightarrow>
         ts_inv j3 \<and> id_inv j3 \<and> cancelled j3 \<and> getitem j3 ''job_dir'' = getitem v ''job_dir''"
  using assms by (simp_all add: inv_defs cancelled_def item_simps fresh_ts_def)

lemma str_add_Inr: "str_add (PStr a) v = Inr c \<Longrightarrow> \<exists>i. c = a @ i"
  by (cases v) auto

lemma cancel_job_post:
  "post (cancel_job self) s (\<lambda>r s'.
      (ts_inv (job_config s) \<longrightarrow> ts_inv (job_config s'))
    \<and> (id_inv (job_config s) \<longrightarrow> id_inv (job_config s'))
    \<and> getitem (job_config s') ''job_dir'' = getitem (job_config s) ''job_dir''
    \<and> (commands (trace s') = commands (trace s)
        \<or> (\<exists>i. commands (trace s') = commands (trace s) @ [''scancel '' @ i]))
    \<and> (\<forall>v. r = Inr v \<longrightarrow> v = job_config s' \<and> cancelled (job_config s')))"
  unfolding cancel_job_def
  apply simp
  apply (intro conjI allI impI post_execute_command)
  apply (simp_all add: setitem_after_pop2 split: sum.splits)
  apply (auto dest: str_add_Inr)[1]
  apply (auto dest: str_add_Inr)[1]
  apply (rule post_save_job)
  apply (auto simp: dumped_def dest: cancel_data str_add_Inr)
  done


lemma job_dir_data:
  "setitem v ''job_dir'' x = Inr v' \<Longrightarrow> ts_inv v' = ts_inv v \<and> id_inv v' = id_inv v"
  by (simp add: inv_defs item_simps)

lemma post_cancel_job:
  assumes "\<And>r s'. (ts_inv (job_config s) \<longrightarrow> ts_inv (job_config s')) \<Longrightarrow>
             (id_inv (job_config s) \<longrightarrow> id_inv (job_config s')) \<Longrightarrow> Q r s'"
  shows "post (cancel_job self) s Q"
  by (rule post_conseq [OF cancel_job_post]) (simp add: assms)

lemma cleanup_job_post:
  "post (cleanup_job self check) s (\<lambda>r s'.
      (ts_inv (job_config s) \<longrightarrow> ts_inv (job_config s'))
    \<and> (id_inv (job_config s) \<longrightarrow> id_inv (job_config s')))"
  unfolding cleanup_job_def
  apply simp
  apply (intro conjI allI impI post_cancel_job post_execute_command)
  apply (simp_all add: job_dir_data)
  done

text \<open>
  C10, as the code has it. With \<open>check\<close> set and the user confirming, \<open>cleanup_job\<close> on an
  active job calls \<open>cancel_job\<close> first, unguarded: when the cancel fails, cleanup ends with
  that exception in the state the cancel left; no command other than the \<open>scancel\<close> was
  issued and the record still has its \<open>job_dir\<close>. With \<open>check\<close> unset no cancel is attempted:
  the only command that cleanup can issue is the removal.
\<close>

theorem cleanup_stops_when_cancel_fails:
  "(is_set (ts_of (job_config s) ''setup_ts'') \<and> is_set (ts_of (job_config s) ''submit_ts'')
    \<and> lower (fst (input self ''Are you sure yo want to cancel the job? [yes/no]'' (world s)))
        = ''yes''
    \<and> cancel_job self
         (s\<lparr>world := snd (input self ''Are you sure yo want to cancel the job? [yes/no]''
                             (world s))\<rparr>) = (Inl e, s')
    \<longrightarrow> cleanup_job self True s = (Inl e, s')
        \<and> getitem (job_config s') ''job_dir'' = getitem (job_config s) ''job_dir''
        \<and> (commands (trace s') = commands (trace s)
            \<or> (\<exists>i. commands (trace s') = commands (trace s) @ [''scancel '' @ i])))
   \<and> (cleanup_job self False s = (r, s2)
    \<longrightarrow> commands (trace s2) = commands (trace s)
        \<or> (\<exists>d. commands (trace s2) = commands (trace s) @ [''rm -r '' @ d]))"
proof (intro conjI impI)
  assume h: "is_set (ts_of (job_config s) ''setup_ts'') \<and> is_set (ts_of (job_config s) ''submit_ts'')
    \<and> lower (fst (input self ''Are you sure yo want to cancel the job? [yes/no]'' (world s)))
        = ''yes''
    \<and> cancel_job self
         (s\<lparr>world := snd (input self ''Are you sure yo want to cancel the job? [yes/no]''
                             (world s))\<rparr>) = (Inl e, s')"
  then show "cleanup_job self True s = (Inl e, s')"
    by (auto simp: cleanup_job_def prog_defs is_set_def ts_of_def split: sum.splits prod.splits)
  let ?s1 = "s\<lparr>world := snd (input self ''Are you sure yo want to cancel the job? [yes/no]''
                             (world s))\<rparr>"
  from h have "cancel_job self ?s1 = (Inl e, s')"
    by simp
  from postD [OF cancel_job_post this]
  show "getitem (job_config s') ''job_dir'' = getitem (job_config s) ''job_dir''"
    and "commands (trace s') = commands (trace s)
            \<or> (\<exists>i. commands (trace s') = commands (trace s) @ [''scancel '' @ i])"
    by auto
next
  assume h: "cleanup_job self False s = (r, s2)"
  have "post (cleanup_job self False) s (\<lambda>r s2. commands (trace s2) = commands (trace s)
        \<or> (\<exists>d. commands (trace s2) = commands (trace s) @ [''rm -r '' @ d]))"
    unfolding cleanup_job_def
    apply simp
    apply (intro conjI allI impI post_execute_command)
    apply (auto dest: str_add_Inr split: sum.splits)
    done
  from postD [OF this h]
  show "commands (trace s2) = commands (trace s)
        \<or> (\<exists>d. commands (trace s2) = commands (trace s) @ [''rm -r '' @ d])" .
qed


theorem cleanup_stops_when_cancel_fails_witness:
  "cleanup_job (sim_manager (shell_but ''scancel'' (failed ''scancel: error''))) True
     (start job1_submitted)
   = (Inl (Exception ''scancel: error''),
      (start job1_submitted)\<lparr>world := sim0\<lparr>typed := [''yes'']\<rparr>, trace := [Cmd ''scancel 42'']\<rparr>)
   \<and> (commands (trace (snd (cleanup_job
          (sim_manager (shell_but ''scancel'' (failed ''scancel: error''))) False
          (start job1_submitted)))) = []
      \<or> (\<exists>d. commands (trace (snd (cleanup_job
                 (sim_manager (shell_but ''scancel'' (failed ''scancel: error''))) False
                 (start job1_submitted)))) = [] @ [''rm -r '' @ d]))"
proof -
  let ?M = "sim_manager (shell_but ''scancel'' (failed ''scancel: error''))"
  let ?s = "start job1_submitted"
  let ?s' = "?s\<lparr>world := sim0\<lparr>typed := [''yes'']\<rparr>, trace := [Cmd ''scancel 42'']\<rparr>"
  have h: "is_set (ts_of (job_config ?s) ''setup_ts'') \<and> is_set (ts_of (job_config ?s) ''submit_ts'')
    \<and> lower (fst (input ?M ''Are you sure yo want to cancel the job? [yes/no]'' (world ?s)))
        = ''yes''
    \<and> cancel_job ?M
         (?s\<lparr>world := snd (input ?M ''Are you sure yo want to cancel the job? [yes/no]''
                             (world ?s))\<rparr>) = (Inl (Exception ''scancel: error''), ?s')"
    by (simp add: run_defs is_set_def ts_of_def cong: seq_weak_cong try_weak_cong)
  have t: "commands (trace ?s) = []"
    by (simp add: start_def)
  from cleanup_stops_when_cancel_fails [of ?s ?M "Exception ''scancel: error''" ?s'
      "fst (cleanup_job ?M False ?s)" "snd (cleanup_job ?M False ?s)"] h
  show ?thesis
    by (simp only: t prod.collapse simp_thms)
qed

text \<open>
  C10, as the claim states it, fails: the cancel inside cleanup is not best effort. When
  \<open>scancel\<close> fails on an active job, cleanup raises, the removal is never issued and the
  record keeps its directory.
\<close>

theorem cleanup_aborts_on_failed_cancel:
  "is_set (ts_of job1_submitted ''submit_ts'')
   \<and> fst (cleanup_job (sim_manager (shell_but ''scancel'' (failed ''scancel: error''))) True
           (start job1_submitted)) = Inl (Exception ''scancel: error'')
   \<and> commands (trace (snd (cleanup_job
         (sim_manager (shell_but ''scancel'' (failed ''scancel: error''))) True
         (start job1_submitted)))) = [''scancel 42'']
   \<and> getitem (job_config (snd (cleanup_job
         (sim_manager (shell_but ''scancel'' (failed ''scancel: error''))) True
         (start job1_submitted)))) ''job_dir'' = Inr (PStr ''/s/jobs/job1_20210101_000000'')"
  by (simp add: run_defs is_set_def ts_of_def cong: seq_weak_cong try_weak_cong)

text \<open>
  C3, as the claim states it, fails: a submission rejected on the sentinel leaves the
  sentinel in the record under \<open>slurm_id\<close> while \<open>submit_ts\<close> is \<open>None\<close>.
\<close>

theorem rejected_submit_keeps_sentinel:
  "id_inv job1
   \<and> fst (submit_job (sim_manager (shell_but ''cd '' (ok ''FAILED\<newline>''))) (start job1))
       = Inl (Exception ''Failed to submit SLURM Job!'')
   \<and> getitem2 (job_config (snd (submit_job
         (sim_manager (shell_but ''cd '' (ok ''FAILED\<newline>''))) (start job1))))
         ''slurm'' ''slurm_id'' = Inr (PStr ''FAILED'')
   \<and> ts_of (job_config (snd (submit_job
         (sim_manager (shell_but ''cd '' (ok ''FAILED\<newline>''))) (start job1)))) ''submit_ts''
       = Inr PNone
   \<and> \<not> id_inv (job_config (snd (submit_job
         (sim_manager (shell_but ''cd '' (ok ''FAILED\<newline>''))) (start job1))))"
  by (simp add: run_defs inv_defs cong: seq_weak_cong try_weak_cong)

text \<open>
  C9 at a failing input. The \<open>sbatch\<close> command writes to standard error, so
  \<open>_execute_command\<close> raises; the handler in \<open>submit_job\<close> builds its exception without
  raising it, and the caller gets the \<open>UnboundLocalError\<close> of the next statement instead
  of a failure of the command. The record is untouched (\<open>submit_ts\<close> is still \<open>None\<close>).
\<close>

theorem failed_sbatch_raises_unbound_local:
  "submit_job (sim_manager (shell_but ''cd '' (failed ''sbatch: error''))) (start job1) =
     (Inl (UnboundLocalError ''ret''),
      (start job1)\<lparr>trace := [Cmd ''cd /s/jobs/job1_20210101_000000;sbatch submit_script.sh'']\<rparr>)"
  by (simp add: run_defs cong: seq_weak_cong try_weak_cong)


section \<open>Saving and loading a record\<close>

text \<open>
  C2. A record whose \<open>job_dir\<close> is the directory of the job identity under the jobs
  directory is saved. Later \<open>load_job_config\<close> is called with that identity, in any state
  \<open>t\<close>: whatever record the caller then holds in memory. The listing of the jobs directory
  shows the job; the saved file is as \<open>save_job\<close> left it; and the SFTP server returns what
  was written to a file. Then \<open>load_job_config\<close> returns the record that \<open>save_job\<close> wrote,
  which is the record passed to \<open>save_job\<close> with \<open>dump_ts\<close> set in its \<open>ts\<close> block.
\<close>

theorem save_then_load:
  assumes saved: "save_job self s = (Inr (), s1)"
    and dir: "getitem (job_config s) ''job_dir'' = Inr (PStr (join ''/'' [jobs_dir self, job_name]))"
    and listed: "get_jobs self t = (Inr jobs, t')" "job_name \<in> set jobs"
    and kept: "sftp_read self (join ''/'' [jobs_dir self, job_name, ''job_config.json'']) (world t')
               = sftp_read self (join ''/'' [jobs_dir self, job_name, ''job_config.json'']) (world s1)"
    and read_back: "\<And>p c w. fst (sftp_write self p c w) = Inr () \<Longrightarrow>
                      sftp_read self p (snd (sftp_write self p c w)) = Inr c"
  shows "load_job_config self job_name t = (Inr (job_config s1), t')
         \<and> dumped self s (job_config s1)"
proof -
  from save_job_Inr [OF saved] obtain d where
    d: "getitem (job_config s1) ''job_dir'' = Inr (PStr d)"
    and dump: "dumped self s (job_config s1)"
    and w: "fst (sftp_write self (d @ ''/job_config.json'') (Json (job_config s1))
                  (snd (sftp_open_w self (d @ ''/job_config.json'')
                          (snd (strftime_now self (world s)))))) = Inr ()"
      "world s1 = snd (sftp_write self (d @ ''/job_config.json'') (Json (job_config s1))
                  (snd (sftp_open_w self (d @ ''/job_config.json'')
                          (snd (strftime_now self (world s))))))"
    by blast
  from dump have "getitem (job_config s1) ''job_dir'' = getitem (job_config s) ''job_dir''"
    unfolding dumped_def by (rule getitem_setitem2) simp
  with d dir have d_eq: "d = join ''/'' [jobs_dir self, job_name]"
    by simp
  have "sftp_read self (d @ ''/job_config.json'') (world s1) = Inr (Json (job_config s1))"
    unfolding w(2) by (rule read_back [OF w(1)])
  then have "sftp_read self (join ''/'' [jobs_dir self, job_name, ''job_config.json'']) (world t')
             = Inr (Json (job_config s1))"
    using kept d_eq by simp
  then have "load_job_config self job_name t = (Inr (job_config s1), t')"
    using listed by (simp add: load_job_config_def prog_defs json_load_def)
  with dump show ?thesis by simp
qed

theorem save_then_load_witness:
  "load_job_config (sim_manager shell) ''job1_20210101_000000''
     \<lparr>job_config = PNone, world = world (snd (save_job (sim_manager shell) (start job1))),
      trace = []\<rparr>
   = (Inr job1_saved,
      \<lparr>job_config = PNone, world = world (snd (save_job (sim_manager shell) (start job1))),
       trace = [Cmd ''ls -lat /s/jobs'']\<rparr>)
   \<and> dumped (sim_manager shell) (start job1) job1_saved"
proof -
  let ?M = "sim_manager shell"
  let ?s1 = "snd (save_job ?M (start job1))"
  let ?t = "\<lparr>job_config = PNone, world = world ?s1, trace = []\<rparr>"
  let ?t' = "\<lparr>job_config = PNone, world = world ?s1, trace = [Cmd ''ls -lat /s/jobs'']\<rparr>"
  have "fst (save_job ?M (start job1)) = Inr ()"
    by (simp add: run_defs cong: seq_weak_cong try_weak_cong)
  then have saved: "save_job ?M (start job1) = (Inr (), ?s1)"
    by (simp add: prod_eq_iff)
  have rec: "job_config ?s1 = job1_saved"
    by (simp add: run_defs job1_saved_def cong: seq_weak_cong try_weak_cong)
  have dir: "getitem (job_config (start job1)) ''job_dir''
             = Inr (PStr (join ''/'' [jobs_dir ?M, ''job1_20210101_000000'']))"
    by (simp add: run_defs)
  have listed: "get_jobs ?M ?t = (Inr [''app1'', ''job1_20210101_000000''], ?t')"
    by (simp add: run_defs cong: seq_weak_cong try_weak_cong)
  have kept: "sftp_read ?M (join ''/'' [jobs_dir ?M, ''job1_20210101_000000'', ''job_config.json''])
                (world ?t')
              = sftp_read ?M (join ''/'' [jobs_dir ?M, ''job1_20210101_000000'', ''job_config.json''])
                (world ?s1)"
    by simp
  have read_back: "\<And>p c w. fst (sftp_write ?M p c w) = Inr () \<Longrightarrow>
                      sftp_read ?M p (snd (sftp_write ?M p c w)) = Inr c"
    by (simp add: sim_manager_def update_conv')
  from save_then_load [OF saved dir listed _ kept read_back] show ?thesis
    unfolding rec by simp
qed

text \<open>
  C8, as the code has it. On a record with a \<open>ts\<close> block and a job directory \<open>d\<close>,
  \<open>save_job\<close> is exactly this: it stamps \<open>dump_ts\<close> with the current time, opens
  \<open>d/job_config.json\<close> itself for writing, and writes the stamped record to it. There is no
  temporary file and no rename. When the open fails its exception is raised again and
  nothing is written; otherwise the outcome of the write is the outcome of \<open>save_job\<close>, an
  exception raised again unchanged or a normal return, and the world is left as the write,
  failed or not, left it.
\<close>

theorem save_job_writes_in_place:
  assumes stamped: "dumped self s j"
    and dir: "getitem j ''job_dir'' = Inr (PStr d)"
  shows "save_job self s =
     (let p = d @ ''/job_config.json'';
          opened = sftp_open_w self p (snd (strftime_now self (world s)));
          written = sftp_write self p (Json j) (snd opened)
      in case fst opened of
           Inl e \<Rightarrow> (Inl e, s\<lparr>job_config := j, world := snd opened,
                               trace := trace s @ [SftpOpenW p]\<rparr>)
         | Inr u \<Rightarrow> (fst written, s\<lparr>job_config := j, world := snd written,
                               trace := trace s @ [SftpOpenW p, SftpWrite p (Json j)]\<rparr>))"
  using assms
  by (auto simp: save_job_def prog_defs dumped_def Let_def split: sum.splits prod.splits)

theorem save_job_writes_in_place_witness:
  "save_job lossy \<lparr>job_config = job1, world = sim1, trace = []\<rparr>
   = (Inl (IOError ''connection lost''),
      \<lparr>job_config = job1_saved,
       world = \<lparr>files = [(''/s/apps/app1/app.json'', Json app_json),
                         (''/s/jobs/job1_20210101_000000/job_config.json'', Text [])],
                ticks = 1, typed = [''yes'', ''yes'']\<rparr>,
       trace = [SftpOpenW ''/s/jobs/job1_20210101_000000/job_config.json'',
                SftpWrite ''/s/jobs/job1_20210101_000000/job_config.json'' (Json job1_saved)]\<rparr>)"
proof -
  have a: "dumped lossy \<lparr>job_config = job1, world = sim1, trace = []\<rparr> job1_saved"
    by (simp add: dumped_def run_defs job1_saved_def)
  have b: "getitem job1_saved ''job_dir'' = Inr (PStr ''/s/jobs/job1_20210101_000000'')"
    by (simp add: job1_saved_def)
  show ?thesis
    using save_job_writes_in_place [OF a b]
    by (simp add: lossy_def sim_manager_def sim1_def sim0_def stamp_def Let_def)
qed

text \<open>
  C8, as the claim states it, fails: the write is not atomic. The file holds a valid
  record; the write fails after the file was opened; the file is left truncated and the
  previous record is lost.
\<close>

theorem failed_save_loses_previous_record:
  "sftp_read lossy ''/s/jobs/job1_20210101_000000/job_config.json'' sim1 = Inr (Json job1)
   \<and> fst (save_job lossy \<lparr>job_config = job1, world = sim1, trace = []\<rparr>)
       = Inl (IOError ''connection lost'')
   \<and> sftp_read lossy ''/s/jobs/job1_20210101_000000/job_config.json''
        (world (snd (save_job lossy \<lparr>job_config = job1, world = sim1, trace = []\<rparr>)))
       = Inr (Text [])"
  by (simp add: run_defs cong: seq_weak_cong try_weak_cong)


section \<open>Polling: accumulated output only grows\<close>

lemma set_status_out [simp]:
  "stdout (set_status st now c) = stdout c" "stderr (set_status st now c) = stderr c"
  by (simp_all add: set_status_def)

lemma poll_now_prefix:
  "poll_now now mb ch c = (c', ch') \<Longrightarrow>
   prefix (stdout c) (stdout c') \<and> prefix (stderr c) (stderr c')"
  by (auto simp: poll_now_def split: if_splits option.splits)

lemma poll_prefix:
  "poll now wait mb future ch c = Some (c', ch', future') \<Longrightarrow>
   prefix (stdout c) (stdout c') \<and> prefix (stderr c) (stderr c')"
proof (induction future arbitrary: ch)
  case Nil
  then show ?case
    by (auto split: if_splits prod.splits dest: poll_now_prefix)
next
  case (Cons a future)
  then show ?case
    by (auto split: if_splits prod.splits dest: poll_now_prefix)
qed

lemma polls_extend:
  "c' \<in> set (polls steps future ch c) \<Longrightarrow>
   prefix (stdout c) (stdout c') \<and> prefix (stderr c) (stderr c')"
proof (induction steps future ch c rule: polls.induct)
  case (1 future ch c)
  then show ?case by simp
next
  case (2 n steps future ch c)
  then show ?case by simp
next
  case (3 now wait max_bytes steps future ch c)
  show ?case
  proof (cases "poll now wait max_bytes future ch c")
    case None
    with 3 show ?thesis by simp
  next
    case (Some res)
    obtain c1 ch1 future1 where res: "res = (c1, ch1, future1)"
      by (cases res) auto
    from poll_prefix Some res
    have p: "prefix (stdout c) (stdout c1) \<and> prefix (stderr c) (stderr c1)"
      by blast
    from 3(2) Some res have "c' = c1 \<or> c' \<in> set (polls steps future1 ch1 c1)"
      by simp
    then show ?thesis
    proof
      assume "c' = c1"
      with p show ?thesis by simp
    next
      assume "c' \<in> set (polls steps future1 ch1 c1)"
      from 3(1) [OF Some res [symmetric] refl this] p
      show ?thesis by (auto intro: prefix_order.trans)
    qed
  qed
qed

text \<open>
  C6. Of the snapshots that the successive polls of a command return, a later one extends
  an earlier one: its standard output and its standard error have the earlier buffers as
  prefixes, so no buffer ever shrinks.
\<close>

theorem polls_output_monotone:
  "i \<le> j \<Longrightarrow> j < length (polls steps future ch c) \<Longrightarrow>
   prefix (stdout (polls steps future ch c ! i)) (stdout (polls steps future ch c ! j))
   \<and> prefix (stderr (polls steps future ch c ! i)) (stderr (polls steps future ch c ! j))"
proof (induction steps future ch c arbitrary: i j rule: polls.induct)
  case (1 future ch c)
  then show ?case by simp
next
  case (2 n steps future ch c)
  then show ?case by simp
next
  case (3 now wait max_bytes steps future ch c)
  show ?case
  proof (cases "poll now wait max_bytes future ch c")
    case None
    with 3(3) show ?thesis by simp
  next
    case (Some res)
    obtain c1 ch1 future1 where res: "res = (c1, ch1, future1)"
      by (cases res) auto
    have eq: "polls (Poll now wait max_bytes # steps) future ch c
              = c1 # polls steps future1 ch1 c1"
      using Some res by simp
    show ?thesis
    proof (cases i)
      case 0
      show ?thesis
      proof (cases j)
        case 0
        with \<open>i = 0\<close> show ?thesis by simp
      next
        case (Suc j')
        with 3(3) eq have "polls steps future1 ch1 c1 ! j' \<in> set (polls steps future1 ch1 c1)"
          by simp
        from polls_extend [OF this] show ?thesis
          using eq \<open>i = 0\<close> Suc by simp
      qed
    next
      case (Suc i')
      with 3(2) obtain j' where j': "j = Suc j'" "i' \<le> j'"
        by (cases j) auto
      with 3(3) eq have "j' < length (polls steps future1 ch1 c1)"
        by simp
      from 3(1) [OF Some res [symmetric] refl j'(2) this] show ?thesis
        using eq Suc j'(1) by simp
    qed
  qed
qed


theorem polls_output_monotone_witness:
  "(1::nat) \<le> 3 \<and> 3 < length (polls echo_steps echo_future idle echo_cmd)
   \<and> stdout (polls echo_steps echo_future idle echo_cmd ! 1) = ''h''
   \<and> stdout (polls echo_steps echo_future idle echo_cmd ! 3) = ''hi\<newline>''
   \<and> status (polls echo_steps echo_future idle echo_cmd ! 3) = COMPLETE
   \<and> prefix (stdout (polls echo_steps echo_future idle echo_cmd ! 1))
        (stdout (polls echo_steps echo_future idle echo_cmd ! 3))
   \<and> prefix (stderr (polls echo_steps echo_future idle echo_cmd ! 1))
        (stderr (polls echo_steps echo_future idle echo_cmd ! 3))"
proof -
  have run: "polls echo_steps echo_future idle echo_cmd =
    [echo_cmd\<lparr>status := RUNNING, history := [(RUNNING, 1)]\<rparr>,
     echo_cmd\<lparr>status := RUNNING, stdout := ''h'', history := [(RUNNING, 1)]\<rparr>,
     echo_cmd\<lparr>status := RUNNING, stdout := ''hi\<newline>'', history := [(RUNNING, 1)]\<rparr>,
     echo_cmd\<lparr>status := COMPLETE, stdout := ''hi\<newline>'',
               history := [(RUNNING, 1), (COMPLETE, 4)]\<rparr>]"
    by (simp add: echo_steps_def echo_future_def idle_def echo_cmd_def poll_now_def
          actionable_def terminal_def set_status_def take_bytes_def)
  have len: "3 < length (polls echo_steps echo_future idle echo_cmd)"
    by (simp add: run)
  from polls_output_monotone [of 1 3 echo_steps echo_future idle echo_cmd, OF _ len]
  show ?thesis
    unfolding run by (simp add: echo_cmd_def)
qed

section \<open>Setting up a job: what it does to the record\<close>

text \<open>The parts of \<open>setup_job\<close> that only talk to the remote host leave the record alone.\<close>

lemma list_files_keeps:
  "post (list_files self path) s (\<lambda>r s'. job_config s' = job_config s)"
  unfolding list_files_def
  by (simp, intro conjI allI impI post_execute_command) simp_all

lemmas post_list_files = post_conseq [OF list_files_keeps]

lemma load_app_config_keeps:
  "post (load_app_config self appId) s (\<lambda>r s'. job_config s' = job_config s)"
  unfolding load_app_config_def get_apps_def
  by (simp, intro conjI allI impI post_list_files) simp_all

lemmas post_load_app_config = post_conseq [OF load_app_config_keeps]

lemma get_app_wrapper_script_keeps:
  "post (get_app_wrapper_script self appId) s (\<lambda>r s'. job_config s' = job_config s)"
  unfolding get_app_wrapper_script_def
  apply simp
  apply (intro conjI allI impI post_load_app_config)
  apply (auto intro!: post_execute_command)
  done

lemmas post_get_app_wrapper_script = post_conseq [OF get_app_wrapper_script_keeps]

lemma cleanup_keeps:
  "post (cleanup self) s (\<lambda>r s'. job_config s' = job_config s)"
  unfolding cleanup_def
  by (simp, intro conjI allI impI post_execute_command) simp_all

lemmas post_cleanup = post_conseq [OF cleanup_keeps]

lemma render_submit_script_keeps:
  "post (render_submit_script self) s (\<lambda>r s'. job_config s' = job_config s)"
  unfolding render_submit_script_def
  by simp

lemmas post_render_submit_script = post_conseq [OF render_submit_script_keeps]

lemma send_file_keeps:
  "post (send_file self l r h) s (\<lambda>r s'. job_config s' = job_config s)"
  unfolding send_file_def
  by (simp, intro conjI allI impI post_execute_command post_list_files) simp_all

lemmas post_send_file = post_conseq [OF send_file_keeps]

lemma stage_inputs_keeps:
  "post (stage_inputs self args acc) s (\<lambda>r s'. job_config s' = job_config s)"
proof (induction args arbitrary: acc s)
  case Nil
  show ?case by simp
next
  case (Cons arg args)
  show ?case
    apply simp
    apply (intro conjI allI impI post_send_file post_cleanup)
    apply simp_all
    apply (rule post_conseq [OF Cons.IH], simp)+
    done
qed

lemmas post_stage_inputs = post_conseq [OF stage_inputs_keeps]

lemma set_attr_sets:
  "post (set_attr app_config j a) s (\<lambda>r s'.
     (\<forall>e. r = Inl e \<longrightarrow> job_config s' = job_config s)
     \<and> (r = Inr () \<longrightarrow> (\<exists>v. setitem (job_config s) j v = Inr (job_config s'))))"
  unfolding set_attr_def get_attr_def
  by auto

lemmas post_set_attr = post_conseq [OF set_attr_sets]


lemmas setup_rules = post_load_app_config post_execute_command post_list_files
  post_get_app_wrapper_script post_cleanup post_set_attr post_render_submit_script
  post_stage_inputs

lemma setup_job_post:
  "post (setup_job self a b c) s (\<lambda>r s'. \<forall>v. r = Inr v \<longrightarrow>
      v = job_config s' \<and> is_set (ts_of v ''setup_ts'') \<and> ts_of v ''submit_ts'' = Inr PNone
      \<and> (\<forall>proj loaded. load_project_config self (os_path_join a c) (world s) = Inr proj \<longrightarrow>
            load_templated_json_file self (os_path_join a b) proj (world s) = Inr loaded \<longrightarrow>
            getitem2 v ''slurm'' ''slurm_id'' = getitem2 loaded ''slurm'' ''slurm_id''))"
  unfolding setup_job_def
  apply simp
  apply (intro conjI allI impI setup_rules post_save_job)
  apply (simp_all add: dumped_def ts_of_def is_set_def)
  apply (auto simp: item_simps fresh_ts_def)
  done

section \<open>The invariant over the lifecycle\<close>

text \<open>
  C3, as the code has it. Every lifecycle operation, whether it returns or raises, keeps
  \<open>submit_ts\<close> set only if \<open>setup_ts\<close> is set. \<open>cancel_job\<close> and \<open>cleanup_job\<close> also keep
  "\<open>slurm_id\<close> present if and only if \<open>submit_ts\<close> set", and so does \<open>submit_job\<close> unless it
  rejects the submission on the sentinel: then the sentinel stays in the record under
  \<open>slurm_id\<close>, with the raw output under \<open>sbatch_ret\<close>, while \<open>submit_ts\<close> is \<open>None\<close>. After a
  \<open>submit_job\<close> that returned, both timestamps are set and \<open>slurm_id\<close> is an identifier
  other than the sentinels. After a \<open>cancel_job\<close> that returned, the four timestamps are
  \<open>None\<close> and no \<open>slurm_id\<close> is left. A \<open>setup_job\<close> that returned gives a record with
  \<open>setup_ts\<close> set and \<open>submit_ts\<close> \<open>None\<close>; it has a \<open>slurm_id\<close> only if the rendered job
  description had one. A \<open>setup_job\<close> that raises hands no record to its caller.
\<close>

theorem lifecycle_invariants:
  "(submit_job self s = (r, s') \<longrightarrow>
      (ts_inv (job_config s) \<longrightarrow> ts_inv (job_config s'))
    \<and> (id_inv (job_config s) \<longrightarrow> id_inv (job_config s')
         \<or> r = Inl (Exception ''Failed to submit SLURM Job!'') \<and> rejected (job_config s'))
    \<and> (\<forall>v. r = Inr v \<longrightarrow> submitted (job_config s')))
   \<and> (cancel_job self s = (r, s') \<longrightarrow>
      (ts_inv (job_config s) \<longrightarrow> ts_inv (job_config s'))
    \<and> (id_inv (job_config s) \<longrightarrow> id_inv (job_config s'))
    \<and> (\<forall>v. r = Inr v \<longrightarrow> cancelled (job_config s')))
   \<and> (cleanup_job self check s = (r, s') \<longrightarrow>
      (ts_inv (job_config s) \<longrightarrow> ts_inv (job_config s'))
    \<and> (id_inv (job_config s) \<longrightarrow> id_inv (job_config s')))
   \<and> (setup_job self a b c s = (Inr v, s') \<longrightarrow>
      ts_inv v \<and> is_set (ts_of v ''setup_ts'') \<and> ts_of v ''submit_ts'' = Inr PNone
    \<and> (\<forall>proj loaded. load_project_config self (os_path_join a c) (world s) = Inr proj \<longrightarrow>
           load_templated_json_file self (os_path_join a b) proj (world s) = Inr loaded \<longrightarrow>
           id_inv v = (\<not> has_slurm_id loaded)))"
proof -
  have A: "submit_job self s = (r, s') \<longrightarrow>
      (ts_inv (job_config s) \<longrightarrow> ts_inv (job_config s'))
    \<and> (id_inv (job_config s) \<longrightarrow> id_inv (job_config s')
         \<or> r = Inl (Exception ''Failed to submit SLURM Job!'') \<and> rejected (job_config s'))
    \<and> (\<forall>v. r = Inr v \<longrightarrow> submitted (job_config s'))"
  proof
    assume h: "submit_job self s = (r, s')"
    from postD [OF submit_job_post h] show "(ts_inv (job_config s) \<longrightarrow> ts_inv (job_config s'))
    \<and> (id_inv (job_config s) \<longrightarrow> id_inv (job_config s')
         \<or> r = Inl (Exception ''Failed to submit SLURM Job!'') \<and> rejected (job_config s'))
    \<and> (\<forall>v. r = Inr v \<longrightarrow> submitted (job_config s'))"
      by blast
  qed
  have B: "cancel_job self s = (r, s') \<longrightarrow>
      (ts_inv (job_config s) \<longrightarrow> ts_inv (job_config s'))
    \<and> (id_inv (job_config s) \<longrightarrow> id_inv (job_config s'))
    \<and> (\<forall>v. r = Inr v \<longrightarrow> cancelled (job_config s'))"
  proof
    assume h: "cancel_job self s = (r, s')"
    from postD [OF cancel_job_post h] show "(ts_inv (job_config s) \<longrightarrow> ts_inv (job_config s'))
    \<and> (id_inv (job_config s) \<longrightarrow> id_inv (job_config s'))
    \<and> (\<forall>v. r = Inr v \<longrightarrow> cancelled (job_config s'))"
      by blast
  qed
  have C: "cleanup_job self check s = (r, s') \<longrightarrow>
      (ts_inv (job_config s) \<longrightarrow> ts_inv (job_config s'))
    \<and> (id_inv (job_config s) \<longrightarrow> id_inv (job_config s'))"
  proof
    assume h: "cleanup_job self check s = (r, s')"
    from postD [OF cleanup_job_post h] show "(ts_inv (job_config s) \<longrightarrow> ts_inv (job_config s'))
    \<and> (id_inv (job_config s) \<longrightarrow> id_inv (job_config s'))"
      by blast
  qed
  have D: "setup_job self a b c s = (Inr v, s') \<longrightarrow>
      ts_inv v \<and> is_set (ts_of v ''setup_ts'') \<and> ts_of v ''submit_ts'' = Inr PNone
    \<and> (\<forall>proj loaded. load_project_config self (os_path_join a c) (world s) = Inr proj \<longrightarrow>
           load_templated_json_file self (os_path_join a b) proj (world s) = Inr loaded \<longrightarrow>
           id_inv v = (\<not> has_slurm_id loaded))"
  proof
    assume h: "setup_job self a b c s = (Inr v, s')"
    from postD [OF setup_job_post h]
    have v: "is_set (ts_of v ''setup_ts'')" "ts_of v ''submit_ts'' = Inr PNone"
      and sl: "\<And>proj loaded. load_project_config self (os_path_join a c) (world s) = Inr proj \<Longrightarrow>
           load_templated_json_file self (os_path_join a b) proj (world s) = Inr loaded \<Longrightarrow>
           getitem2 v ''slurm'' ''slurm_id'' = getitem2 loaded ''slurm'' ''slurm_id''"
      by auto
    from v have 1: "ts_inv v"
      by (simp add: ts_inv_def)
    from v sl
    have 2: "\<forall>proj loaded. load_project_config self (os_path_join a c) (world s) = Inr proj \<longrightarrow>
           load_templated_json_file self (os_path_join a b) proj (world s) = Inr loaded \<longrightarrow>
           id_inv v = (\<not> has_slurm_id loaded)"
      by (simp add: id_inv_def has_slurm_id_def is_set_def)
    from 1 v 2 show "ts_inv v \<and> is_set (ts_of v ''setup_ts'') \<and> ts_of v ''submit_ts'' = Inr PNone
    \<and> (\<forall>proj loaded. load_project_config self (os_path_join a c) (world s) = Inr proj \<longrightarrow>
           load_templated_json_file self (os_path_join a b) proj (world s) = Inr loaded \<longrightarrow>
           id_inv v = (\<not> has_slurm_id loaded))"
      by (intro conjI)
  qed
  show ?thesis
    by (rule conjI [OF A conjI [OF B conjI [OF C D]]])
qed

theorem lifecycle_invariants_witness:
  "ts_inv (job_config (snd (submit_job (sim_manager shell) (start job1))))
   \<and> id_inv (job_config (snd (submit_job (sim_manager shell) (start job1))))
   \<and> submitted (job_config (snd (submit_job (sim_manager shell) (start job1))))
   \<and> cancelled (job_config (snd (cancel_job (sim_manager shell) (start job1_submitted))))
   \<and> id_inv (job_config (snd (cleanup_job (sim_manager shell) True (start job1_submitted))))
   \<and> (\<exists>v s'. setup_job (sim_manager shell) ''.'' ''job.json'' ''project.ini'' (start PNone)
                = (Inr v, s') \<and> ts_inv v \<and> id_inv v)"
proof -
  let ?M = "sim_manager shell"
  have inv: "ts_inv job1" "id_inv job1" "ts_inv job1_submitted" "id_inv job1_submitted"
    by (simp_all add: inv_defs job1_def job1_submitted_def getitem2_def)
  have jc: "job_config (start job1) = job1" "job_config (start job1_submitted) = job1_submitted"
    by (simp_all add: start_def)
  have c: "\<exists>v. fst (cancel_job ?M (start job1_submitted)) = Inr v"
    by (simp add: run_defs cong: seq_weak_cong try_weak_cong)
  have sb: "\<exists>v. fst (submit_job ?M (start job1)) = Inr v"
    by (simp add: run_defs cong: seq_weak_cong try_weak_cong)
  have su: "\<exists>v s'. setup_job ?M ''.'' ''job.json'' ''project.ini'' (start PNone) = (Inr v, s')"
    unfolding setup_job_def
    apply (intro exI)
    apply ((rule seq_run, (simp add: run_defs cong: seq_weak_cong try_weak_cong; fail))
           | simp only: prod.case)+
    apply (simp add: get_job_def)
    done
  then obtain v s' where 4: "setup_job ?M ''.'' ''job.json'' ''project.ini'' (start PNone) = (Inr v, s')"
    by blast
  have ld: "load_project_config ?M (os_path_join ''.'' ''project.ini'') (world (start PNone))
            = Inr (PDict [])"
    "load_templated_json_file ?M (os_path_join ''.'' ''job.json'') (PDict [])
       (world (start PNone)) = Inr job_json"
    "\<not> has_slurm_id job_json"
    by (simp_all add: sim_manager_def has_slurm_id_def job_json_def getitem2_def)
  from c obtain cv where cv: "fst (cancel_job ?M (start job1_submitted)) = Inr cv"
    by blast
  from sb obtain sv where sv: "fst (submit_job ?M (start job1)) = Inr sv"
    by blast
  have 1: "submit_job ?M (start job1) = (Inr sv, snd (submit_job ?M (start job1)))"
    and 2: "cancel_job ?M (start job1_submitted)
           = (Inr cv, snd (cancel_job ?M (start job1_submitted)))"
    and 3: "cleanup_job ?M True (start job1_submitted)
           = (fst (cleanup_job ?M True (start job1_submitted)),
              snd (cleanup_job ?M True (start job1_submitted)))"
    using cv sv by (simp_all add: prod_eq_iff)
  note L = lifecycle_invariants
  from L [of ?M "start job1" "Inr sv" "snd (submit_job ?M (start job1))"] 1 inv jc
  have a: "ts_inv (job_config (snd (submit_job ?M (start job1))))"
    "id_inv (job_config (snd (submit_job ?M (start job1))))"
    "submitted (job_config (snd (submit_job ?M (start job1))))"
    by simp_all
  from L [of ?M "start job1_submitted" "Inr cv"
             "snd (cancel_job ?M (start job1_submitted))"] 2
  have b: "cancelled (job_config (snd (cancel_job ?M (start job1_submitted))))"
    by simp
  from L [of ?M "start job1_submitted" "fst (cleanup_job ?M True (start job1_submitted))"
             "snd (cleanup_job ?M True (start job1_submitted))" True] 3 inv jc
  have d: "id_inv (job_config (snd (cleanup_job ?M True (start job1_submitted))))"
    by simp
  from L [of ?M "start PNone" _ s' _ "''.''" "''job.json''" "''project.ini''" v] 4 ld
  have e: "ts_inv v \<and> id_inv v"
    by blast
  from a b d e 4 show ?thesis by blast
qed

section \<open>Setting up a job: failures once the job directory exists\<close>

text \<open>
  C7 at two failing inputs. First, the copy of the application into the job directory
  writes to standard error: \<open>setup_job\<close> raises the error of the copy, and the commands it
  ran end with the copy, so the job directory made by \<open>mkdir\<close> is not removed. Second, the
  upload of a declared input raises \<open>FileNotFoundError\<close>: the handler removes the job
  directory and then \<open>setup_job\<close> raises \<open>TypeError\<close>, not the error of the upload.
\<close>

theorem setup_job_failure_paths:
  "(\<exists>s'. setup_job (sim_manager (shell_but ''cp -r'' (failed ''cp: error''))) ''.'' ''job.json''
           ''project.ini'' (start PNone) = (Inl (Exception ''cp: error''), s')
        \<and> commands (trace s')
           = [''ls -lat /s/apps'', ''mkdir /s/jobs/job1_20210101_000000'',
              ''cp -r /s/apps/app1/* /s/jobs/job1_20210101_000000/''])
   \<and> (\<exists>s'. setup_job no_upload ''.'' ''job.json'' ''project.ini'' (start PNone)
             = (Inl TypeError, s')
        \<and> commands (trace s')
           = [''ls -lat /s/apps'', ''mkdir /s/jobs/job1_20210101_000000'',
              ''cp -r /s/apps/app1/* /s/jobs/job1_20210101_000000/'',
              ''ls -lat /s/jobs/job1_20210101_000000'',
              ''ls -lat /s/apps'',
              ''cat /s/apps/app1/run.sh'',
              ''rm -rf /s/jobs/job1_20210101_000000'']
        \<and> fst (sftp_put no_upload ''data/in1.txt'' ''/s/jobs/job1_20210101_000000/in1.txt'' sim0)
           = Inl FileNotFoundError)"
  unfolding setup_job_def
  apply (rule conjI)
  subgoal
    apply (intro exI conjI)
    apply ((rule seq_run, (simp add: run_defs cong: seq_weak_cong try_weak_cong; fail))
           | (rule seq_fail, (simp add: run_defs cong: seq_weak_cong try_weak_cong; fail))
           | simp only: prod.case)+
    apply (simp add: commands_def)
    done
  subgoal
    apply (intro exI conjI)
    apply ((rule seq_run, (simp add: run_defs cong: seq_weak_cong try_weak_cong; fail))
           | (rule seq_fail, (simp add: run_defs cong: seq_weak_cong try_weak_cong; fail))
           | simp only: prod.case)+
    apply (simp add: commands_def)
    apply (simp add: no_upload_def)
    done
  done

end
